theory Spec2Isabelle
  imports Complex_Main "HOL-Library.Sublist"
begin

section \<open>The tool layer of the GitHub Projects V2 server\<close>

text \<open>
  The theory embeds the tool functions of \<^verbatim>\<open>src/github_projects_mcp/server.py\<close>.
  Every tool is a thin orchestration over the methods of \<^verbatim>\<open>GitHubClient\<close>, whose
  module is not among the sources: the client is a parameter of the model, a record
  with one response function per method. A response function reads and updates a
  state of the outside world (the GitHub service), so that a mutation can change what
  later calls answer, and it either returns a value or raises.

  Text is \<^typ>\<open>string\<close>, one character per code point. Python's
  \<^verbatim>\<open>str.lower\<close>, \<^verbatim>\<open>str.upper\<close> and \<^verbatim>\<open>float\<close> are parameters of the model as well: the
  theorems hold for whatever these functions are.
\<close>

subsection \<open>Exceptions and values\<close>

text \<open>
  \<open>GitHubClientError\<close> and \<open>ValueError\<close> carry the text that \<^verbatim>\<open>str(e)\<close> renders.
  \<open>OtherError\<close> stands for every other subclass of \<^verbatim>\<open>Exception\<close> and carries the name
  of the class; \<open>BaseError\<close> stands for the exceptions outside \<^verbatim>\<open>Exception\<close>
  (\<^verbatim>\<open>CancelledError\<close>, \<^verbatim>\<open>KeyboardInterrupt\<close>, \<^verbatim>\<open>SystemExit\<close>), which a handler
  \<^verbatim>\<open>except Exception\<close> lets through.
\<close>

datatype error = GitHubClientError string | ValueError string | OtherError string | BaseError string

text \<open>What \<^verbatim>\<open>except Exception\<close> catches.\<close>

definition is_exception :: "error \<Rightarrow> bool" where
  "is_exception e = (case e of BaseError c \<Rightarrow> False | _ \<Rightarrow> True)"

text \<open>A subscript read \<^verbatim>\<open>d[k]\<close> of a missing key raises \<^verbatim>\<open>KeyError\<close>.\<close>

definition key_error :: error where
  "key_error = OtherError ''KeyError''"

text \<open>
  A Python float: a finite double is the rational it denotes; infinities and NaN are
  separate values.
\<close>

datatype pyfloat = Finite rat | PosInf | NegInf | NaN

text \<open>\<^verbatim>\<open>float.is_integer()\<close>: false on infinities and NaN.\<close>

fun is_integer :: "pyfloat \<Rightarrow> bool" where
  "is_integer (Finite q) = (of_int \<lfloor>q\<rfloor> = q)"
| "is_integer PosInf = False"
| "is_integer NegInf = False"
| "is_integer NaN = False"

text \<open>
  \<^verbatim>\<open>int(x)\<close> on a float truncates toward zero; it is only applied to floats on which
  \<open>is_integer\<close> holds, and raises on the others (OverflowError on an infinity,
  ValueError on NaN).
\<close>

fun int_of_float :: "pyfloat \<Rightarrow> error + int" where
  "int_of_float (Finite q) = Inr (if q < 0 then - \<lfloor>- q\<rfloor> else \<lfloor>q\<rfloor>)"
| "int_of_float PosInf = Inl (OtherError ''OverflowError'')"
| "int_of_float NegInf = Inl (OtherError ''OverflowError'')"
| "int_of_float NaN = Inl (ValueError ''cannot convert float NaN to integer'')"

text \<open>The value handed to the client's \<^verbatim>\<open>update_project_item_field\<close> (typed \<^verbatim>\<open>Any\<close>).\<close>

datatype pvalue = VStr string | VInt int | VFloat pyfloat

subsection \<open>Python text helpers\<close>

definition nl :: string where
  "nl = [CHR 0x0A]"

definition digit_char :: "nat \<Rightarrow> char" where
  "digit_char d = ''0123456789'' ! d"

function str_nat :: "nat \<Rightarrow> string" where
  "str_nat n = (if n < 10 then [digit_char n] else str_nat (n div 10) @ [digit_char (n mod 10)])"
  by pat_completeness auto
termination
  by (relation "measure (\<lambda>n. n)") auto

text \<open>\<^verbatim>\<open>str(i)\<close> for an int, as an f-string renders it.\<close>

definition str_int :: "int \<Rightarrow> string" where
  "str_int i = (if i < 0 then CHR ''-'' # str_nat (nat (- i)) else str_nat (nat i))"

text \<open>An f-string renders \<^verbatim>\<open>None\<close> as the text None.\<close>

definition fmt_str_opt :: "string option \<Rightarrow> string" where
  "fmt_str_opt v = (case v of None \<Rightarrow> ''None'' | Some s \<Rightarrow> s)"

definition fmt_int_opt :: "int option \<Rightarrow> string" where
  "fmt_int_opt v = (case v of None \<Rightarrow> ''None'' | Some i \<Rightarrow> str_int i)"

text \<open>Truthiness of an \<^verbatim>\<open>Optional[str]\<close>: \<^verbatim>\<open>None\<close> and the empty string are false.\<close>

definition truthy :: "string option \<Rightarrow> bool" where
  "truthy v = (case v of None \<Rightarrow> False | Some s \<Rightarrow> s \<noteq> [])"

definition lower_char :: "char \<Rightarrow> char" where
  "lower_char c =
     (case map_of (zip ''ABCDEFGHIJKLMNOPQRSTUVWXYZ'' ''abcdefghijklmnopqrstuvwxyz'') c of
        Some d \<Rightarrow> d
      | None \<Rightarrow> c)"

definition upper_char :: "char \<Rightarrow> char" where
  "upper_char c =
     (case map_of (zip ''abcdefghijklmnopqrstuvwxyz'' ''ABCDEFGHIJKLMNOPQRSTUVWXYZ'') c of
        Some d \<Rightarrow> d
      | None \<Rightarrow> c)"

text \<open>
  \<^verbatim>\<open>str.lower\<close> and \<^verbatim>\<open>str.upper\<close> as they act on ASCII text. The tools take the two
  functions as parameters; these are the ones of the concrete runs below.
\<close>

definition ascii_lower :: "string \<Rightarrow> string" where
  "ascii_lower s = map lower_char s"

definition ascii_upper :: "string \<Rightarrow> string" where
  "ascii_upper s = map upper_char s"

text \<open>Python's \<^verbatim>\<open>str.lower\<close> and \<^verbatim>\<open>str.upper\<close>, handed to the tools that use them.\<close>

record text_ops =
  py_lower :: "string \<Rightarrow> string"
  py_upper :: "string \<Rightarrow> string"

definition ascii_ops :: text_ops where
  "ascii_ops = \<lparr> py_lower = ascii_lower, py_upper = ascii_upper \<rparr>"

text \<open>\<^verbatim>\<open>sep.join(xs)\<close>.\<close>

fun join :: "string \<Rightarrow> string list \<Rightarrow> string" where
  "join sep [] = []"
| "join sep [x] = x"
| "join sep (x # y # ys) = x @ sep @ join sep (y # ys)"

definition hex_digit :: "nat \<Rightarrow> char" where
  "hex_digit d = ''0123456789abcdef'' ! d"

text \<open>
  \<^verbatim>\<open>repr\<close> of a str: the quote is the apostrophe unless the text holds an
  apostrophe and no double quote; the backslash, the chosen quote, newline, carriage
  return and tab are escaped, every other character that is not printable (the
  control characters, and among the code points below 256 also 127 to 160 and 173) is
  written \<^verbatim>\<open>\xNN\<close>.
\<close>

definition repr_char :: "char \<Rightarrow> char \<Rightarrow> string" where
  "repr_char q c =
     (if c = CHR 0x5C then [CHR 0x5C, CHR 0x5C]
      else if c = q then [CHR 0x5C, q]
      else if c = CHR 0x0A then [CHR 0x5C, CHR ''n'']
      else if c = CHR 0x0D then [CHR 0x5C, CHR ''r'']
      else if c = CHR 0x09 then [CHR 0x5C, CHR ''t'']
      else if (of_char c :: nat) < 32 \<or> (127 \<le> (of_char c :: nat) \<and> (of_char c :: nat) \<le> 160)
              \<or> (of_char c :: nat) = 173
        then [CHR 0x5C, CHR ''x'', hex_digit (of_char c div 16), hex_digit (of_char c mod 16)]
      else [c])"

definition repr_str :: "string \<Rightarrow> string" where
  "repr_str s =
     (let q = (if CHR 0x27 \<in> set s \<and> CHR 0x22 \<notin> set s then CHR 0x22 else CHR 0x27)
      in [q] @ concat (map (repr_char q) s) @ [q])"

text \<open>\<^verbatim>\<open>str\<close> of a list of str, as an f-string renders \<^verbatim>\<open>list(d.keys())\<close>.\<close>

definition repr_list :: "string list \<Rightarrow> string" where
  "repr_list xs = ''['' @ join '', '' (map repr_str xs) @ '']''"

subsection \<open>What the client returns\<close>

text \<open>
  The client returns JSON-like dictionaries, here records. A key that a tool reads
  both ways, or whose absence or null value changes what a tool does, is an \<open>entry\<close>:
  missing, null, or a value. \<^verbatim>\<open>d.get(k)\<close> gives \<^verbatim>\<open>None\<close> for a missing and for a null
  key; \<^verbatim>\<open>d[k]\<close> raises \<^verbatim>\<open>KeyError\<close> for a missing one. A key that is only read with
  \<^verbatim>\<open>d.get(k)\<close> and only rendered or tested for truth is an option, \<open>None\<close> when the key is
  missing or null. The other keys are fields of their type. Ordered dictionaries are
  association lists in iteration order.
\<close>

datatype 'a entry = Absent | Null | Value 'a

definition dict_get :: "'a entry \<Rightarrow> 'a option" where
  "dict_get e = (case e of Value v \<Rightarrow> Some v | _ \<Rightarrow> None)"

record project =
  proj_id :: string
  proj_number :: int
  proj_title :: string
  proj_url :: string

record field_details =
  fd_id :: string
  fd_type :: string
  fd_options :: "(string \<times> string) list entry"
  fd_iterations :: "(string \<times> string) list entry"

record repository =
  repo_owner_login :: "string option"
  repo_name :: "string option"

text \<open>
  The content of an item. \<open>c_repository\<close> is \<open>None\<close> when the dictionary is missing or
  empty; \<open>c_json\<close> is the text \<^verbatim>\<open>json.dumps(content)\<close> renders.
\<close>

record content =
  c_typename :: "string option"
  c_number :: "int option"
  c_title :: "string option"
  c_state :: "string option"
  c_url :: "string option"
  c_repository :: "repository option"
  c_id :: "string option"
  c_body :: "string option"
  c_json :: string

text \<open>
  An item; a field value is kept as the text \<^verbatim>\<open>str(value)\<close> renders.
\<close>

record item =
  item_ident :: string
  item_content :: content
  item_field_values :: "(string \<times> string) list"

record items_page =
  page_items :: "item list"
  page_has_next :: bool
  page_end_cursor :: "string option"

text \<open>
  A created issue; \<open>issue_assignee_logins\<close> are the logins under
  \<^verbatim>\<open>assignees.nodes\<close>, empty when there are none.
\<close>

record issue =
  issue_number :: "int entry"
  issue_title :: "string entry"
  issue_url :: "string entry"
  issue_assignee_logins :: "string list"

subsection \<open>The client and the trace of its calls\<close>

datatype call =
    GetProjects string
  | GetProjectFieldsDetails string int
  | GetProjectItems string int int "string option" "string option" "string option" "string option"
  | CreateIssue string string string string "string list option"
  | AddIssueToProject string int string string "int option"
  | SetProjectItemDates string int string "string option" "string option" string string
  | UpdateProjectItemField string int string string pvalue
  | AddDraftIssueToProject string int string string "string list option"
  | DeleteProjectItem string int string

text \<open>
  The client: each method answers in a world \<open>'w\<close> with a value or an exception, and
  the world after the call. \<open>add_issue_to_project\<close> and \<open>add_draft_issue_to_project\<close>
  answer a dictionary of which the tools read the key \<^verbatim>\<open>id\<close>, here that entry;
  \<open>set_project_item_dates\<close> answers the map of updated fields, \<open>delete_project_item\<close> the
  deleted identifier.
\<close>

record 'w client =
  client_get_projects :: "string \<Rightarrow> 'w \<Rightarrow> (error + project list) \<times> 'w"
  client_get_project_fields_details ::
    "string \<Rightarrow> int \<Rightarrow> 'w \<Rightarrow> (error + (string \<times> field_details) list) \<times> 'w"
  client_get_project_items ::
    "string \<Rightarrow> int \<Rightarrow> int \<Rightarrow> string option \<Rightarrow> string option \<Rightarrow> string option \<Rightarrow> string option
      \<Rightarrow> 'w \<Rightarrow> (error + items_page) \<times> 'w"
  client_create_issue ::
    "string \<Rightarrow> string \<Rightarrow> string \<Rightarrow> string \<Rightarrow> string list option \<Rightarrow> 'w \<Rightarrow> (error + issue) \<times> 'w"
  client_add_issue_to_project ::
    "string \<Rightarrow> int \<Rightarrow> string \<Rightarrow> string \<Rightarrow> int option \<Rightarrow> 'w \<Rightarrow> (error + string entry) \<times> 'w"
  client_set_project_item_dates ::
    "string \<Rightarrow> int \<Rightarrow> string \<Rightarrow> string option \<Rightarrow> string option \<Rightarrow> string \<Rightarrow> string
      \<Rightarrow> 'w \<Rightarrow> (error + (string \<times> string) list) \<times> 'w"
  client_update_project_item_field ::
    "string \<Rightarrow> int \<Rightarrow> string \<Rightarrow> string \<Rightarrow> pvalue \<Rightarrow> 'w \<Rightarrow> (error + unit) \<times> 'w"
  client_add_draft_issue_to_project ::
    "string \<Rightarrow> int \<Rightarrow> string \<Rightarrow> string \<Rightarrow> string list option \<Rightarrow> 'w \<Rightarrow> (error + string entry) \<times> 'w"
  client_delete_project_item ::
    "string \<Rightarrow> int \<Rightarrow> string \<Rightarrow> 'w \<Rightarrow> (error + string option) \<times> 'w"

text \<open>
  A run carries the trace of the client calls made so far, each with the exception it
  raised if any, and the world. \<open>invoke\<close> is one awaited client call.
\<close>

type_synonym event = "call \<times> error option"

type_synonym 'w run_state = "event list \<times> 'w"

definition raised :: "error + 'a \<Rightarrow> error option" where
  "raised r = (case r of Inl e \<Rightarrow> Some e | Inr v \<Rightarrow> None)"

definition invoke :: "call \<Rightarrow> ('w \<Rightarrow> (error + 'a) \<times> 'w) \<Rightarrow> 'w run_state \<Rightarrow> (error + 'a) \<times> 'w run_state" where
  "invoke c f s = (case f (snd s) of (r, w) \<Rightarrow> (r, (fst s @ [(c, raised r)], w)))"

subsection \<open>Tools\<close>

text \<open>
  A tool returns its text (\<open>Inr\<close>) or lets an exception escape (\<open>Inl\<close>), and the
  run state after it.
\<close>

definition set_project_item_dates ::
  "'w client \<Rightarrow> string \<Rightarrow> int \<Rightarrow> string \<Rightarrow> string option \<Rightarrow> string option \<Rightarrow> string \<Rightarrow> string
    \<Rightarrow> 'w run_state \<Rightarrow> (error + string) \<times> 'w run_state" where
  "set_project_item_dates cl owner project_number item_id start_date end_date start_field_name end_field_name s =
     (if \<not> (truthy start_date \<or> truthy end_date)
      then (Inr ''Error: Provide at least one of start_date or end_date'', s)
      else
        (case invoke (SetProjectItemDates owner project_number item_id start_date end_date
                        start_field_name end_field_name)
                (client_set_project_item_dates cl owner project_number item_id start_date end_date
                        start_field_name end_field_name) s of
           (Inr updates, s1) \<Rightarrow>
             (if updates = [] then (Inr ''No date fields were updated (fields may be missing).'', s1)
              else (Inr (''Successfully updated date fields for item '' @ item_id @ '' in project #''
                         @ str_int project_number @ '':'' @ nl
                         @ join nl (map (\<lambda>(k, v). ''  - '' @ k @ '': '' @ v) updates)), s1))
         | (Inl (GitHubClientError e), s1) \<Rightarrow> (Inr (''Error: Could not set dates. Details: '' @ e), s1)
         | (Inl (ValueError e), s1) \<Rightarrow> (Inr (''Error: Could not set dates. Details: '' @ e), s1)
         | (Inl (OtherError e), s1) \<Rightarrow> (Inl (OtherError e), s1)
         | (Inl (BaseError e), s1) \<Rightarrow> (Inl (BaseError e), s1)))"

definition fmt_project :: "project \<Rightarrow> string" where
  "fmt_project p =
     ''- ID: '' @ proj_id p @ nl
     @ ''  Number: '' @ str_int (proj_number p) @ nl
     @ ''  Title: '' @ proj_title p @ nl
     @ ''  URL: '' @ proj_url p @ nl
     @ nl"

definition list_projects :: "'w client \<Rightarrow> string \<Rightarrow> 'w run_state \<Rightarrow> (error + string) \<times> 'w run_state" where
  "list_projects cl owner s =
     (case invoke (GetProjects owner) (client_get_projects cl owner) s of
        (Inr projects, s1) \<Rightarrow>
          (if projects = [] then (Inr (''No projects found for '' @ owner), s1)
           else (Inr (''Projects for '' @ owner @ '':'' @ nl @ nl @ concat (map fmt_project projects)), s1))
      | (Inl (GitHubClientError e), s1) \<Rightarrow>
          (Inr (''Error: Could not list projects for '' @ owner @ ''. Details: '' @ e), s1)
      | (Inl (ValueError e), s1) \<Rightarrow> (Inl (ValueError e), s1)
      | (Inl (OtherError e), s1) \<Rightarrow> (Inl (OtherError e), s1)
      | (Inl (BaseError e), s1) \<Rightarrow> (Inl (BaseError e), s1))"

definition fmt_field :: "string \<times> field_details \<Rightarrow> string" where
  "fmt_field nd =
     (case nd of (field_name, details) \<Rightarrow>
        ''- Name: '' @ field_name @ nl
        @ ''  ID: '' @ fd_id details @ nl
        @ ''  Type: '' @ fd_type details @ nl
        @ (case dict_get (fd_options details) of
             Some opts \<Rightarrow>
               (if fd_type details = ''ProjectV2SingleSelectField'' \<and> opts \<noteq> []
                then ''  Options (Name: ID):'' @ nl
                     @ concat (map (\<lambda>(opt_name, opt_id). ''    - '' @ opt_name @ '': '' @ opt_id @ nl) opts)
                else [])
           | None \<Rightarrow> [])
        @ nl)"

definition get_project_fields ::
  "'w client \<Rightarrow> string \<Rightarrow> int \<Rightarrow> 'w run_state \<Rightarrow> (error + string) \<times> 'w run_state" where
  "get_project_fields cl owner project_number s =
     (case invoke (GetProjectFieldsDetails owner project_number)
             (client_get_project_fields_details cl owner project_number) s of
        (Inr fields_details, s1) \<Rightarrow>
          (if fields_details = []
           then (Inr (''No fields found for project #'' @ str_int project_number @ '' in '' @ owner), s1)
           else (Inr (''Fields for project #'' @ str_int project_number @ '' in '' @ owner @ '':'' @ nl @ nl
                      @ concat (map fmt_field fields_details)), s1))
      | (Inl (GitHubClientError e), s1) \<Rightarrow>
          (Inr (''Error: Could not get fields for project '' @ owner @ ''/'' @ str_int project_number
                @ ''. Details: '' @ e), s1)
      | (Inl (ValueError e), s1) \<Rightarrow> (Inl (ValueError e), s1)
      | (Inl (OtherError e), s1) \<Rightarrow> (Inl (OtherError e), s1)
      | (Inl (BaseError e), s1) \<Rightarrow> (Inl (BaseError e), s1))"

text \<open>The value of a truthy \<^verbatim>\<open>Optional[str]\<close>, \<open>None\<close> for a falsy one.\<close>

definition nonempty :: "string option \<Rightarrow> string option" where
  "nonempty v = (case v of None \<Rightarrow> None | Some s \<Rightarrow> if s = [] then None else Some s)"

definition filter_desc :: "text_ops \<Rightarrow> string option \<Rightarrow> string option \<Rightarrow> string option \<Rightarrow> string" where
  "filter_desc ops state filter_field_name filter_field_value =
     (case nonempty state of
        Some st \<Rightarrow> '' (State: '' @ py_upper ops st @ '')''
      | None \<Rightarrow>
          (case nonempty filter_field_name of
             Some n \<Rightarrow>
               (case nonempty filter_field_value of
                  Some v \<Rightarrow> '' (Filter: '' @ n @ '' = '' @ [CHR 0x27] @ v @ [CHR 0x27] @ '')''
                | None \<Rightarrow> [])
           | None \<Rightarrow> []))"

text \<open>
  The loop over \<^verbatim>\<open>fields_details.items()\<close> that stops at the first name equal to the
  filter name up to case.
\<close>

fun find_field :: "text_ops \<Rightarrow> (string \<times> field_details) list \<Rightarrow> string \<Rightarrow> field_details option" where
  "find_field ops [] filter_field_name = None"
| "find_field ops ((fname, finfo) # rest) filter_field_name =
     (if py_lower ops fname = py_lower ops filter_field_name then Some finfo
      else find_field ops rest filter_field_name)"

text \<open>The last return of the zero-item branch.\<close>

definition no_items_message :: "string \<Rightarrow> int \<Rightarrow> string \<Rightarrow> string" where
  "no_items_message owner project_number fdesc =
     ''No items found in project #'' @ str_int project_number @ '' for '' @ owner @ fdesc @ nl @ nl
     @ ''Note: If the project has many items, try increasing the limit parameter to search more thoroughly.''"

text \<open>
  The two returns with debug info; \<open>kind\<close> is \<^verbatim>\<open>options\<close> or \<^verbatim>\<open>iterations\<close> and
  \<open>names\<close> the keys of that dictionary.
\<close>

definition debug_message ::
  "string \<Rightarrow> int \<Rightarrow> string \<Rightarrow> int \<Rightarrow> string \<Rightarrow> string \<Rightarrow> string \<Rightarrow> string \<Rightarrow> string list \<Rightarrow> string" where
  "debug_message owner project_number fdesc limit filter_field_name filter_field_value field_type kind names =
     ''No items found in project #'' @ str_int project_number @ '' for '' @ owner @ fdesc @ nl @ nl
     @ ''Debug info:'' @ nl
     @ ''- Found field '' @ [CHR 0x27] @ filter_field_name @ [CHR 0x27] @ '' with type ''
       @ [CHR 0x27] @ field_type @ [CHR 0x27] @ nl
     @ ''- Available '' @ kind @ '': '' @ repr_list names @ nl
     @ ''- Note: Searched up to '' @ str_int limit @ '' items. If the project has many items, some ''
       @ [CHR 0x27] @ filter_field_value @ [CHR 0x27] @ '' items might be beyond this scope.'' @ nl
     @ ''- Tip: Try increasing the limit parameter or check if the field value spelling is correct.''"

text \<open>
  \<^verbatim>\<open>list(field_info.get(k, {}).keys())\<close>: a missing key gives the empty list; a null
  value has no \<^verbatim>\<open>keys\<close> and the call raises \<^verbatim>\<open>AttributeError\<close>.
\<close>

definition keys_of :: "(string \<times> string) list entry \<Rightarrow> error + string list" where
  "keys_of d =
     (case d of
        Absent \<Rightarrow> Inr []
      | Null \<Rightarrow> Inl (OtherError ''AttributeError'')
      | Value kvs \<Rightarrow> Inr (map fst kvs))"

definition repo_str :: "content \<Rightarrow> string" where
  "repo_str c =
     (case c_repository c of
        Some r \<Rightarrow> fmt_str_opt (repo_owner_login r) @ ''/'' @ fmt_str_opt (repo_name r)
      | None \<Rightarrow> ''N/A'')"

definition fmt_content :: "content \<Rightarrow> string" where
  "fmt_content c =
     (if c_typename c = Some ''Issue'' then
        ''  Type: Issue #'' @ fmt_int_opt (c_number c) @ '' ('' @ repo_str c @ '')'' @ nl
        @ ''  Title: '' @ fmt_str_opt (c_title c) @ nl
        @ ''  State: '' @ fmt_str_opt (c_state c) @ nl
        @ ''  URL: '' @ fmt_str_opt (c_url c) @ nl
      else if c_typename c = Some ''PullRequest'' then
        ''  Type: PR #'' @ fmt_int_opt (c_number c) @ '' ('' @ repo_str c @ '')'' @ nl
        @ ''  Title: '' @ fmt_str_opt (c_title c) @ nl
        @ ''  State: '' @ fmt_str_opt (c_state c) @ nl
        @ ''  URL: '' @ fmt_str_opt (c_url c) @ nl
      else if c_typename c = Some ''DraftIssue'' then
        ''  Type: Draft Issue ID: '' @ fmt_str_opt (c_id c) @ nl
        @ ''  Title: '' @ fmt_str_opt (c_title c) @ nl
        @ (case nonempty (c_body c) of
             Some body \<Rightarrow> ''  Body: '' @ take 100 body @ ''...'' @ nl
           | None \<Rightarrow> [])
      else
        ''  Type: '' @ (case nonempty (c_typename c) of Some t \<Rightarrow> t | None \<Rightarrow> ''Unknown'') @ nl
        @ ''  Content: '' @ c_json c @ nl)"

definition fmt_item :: "item \<Rightarrow> string" where
  "fmt_item it =
     ''- Item ID: '' @ item_ident it @ nl
     @ fmt_content (item_content it)
     @ (if item_field_values it \<noteq> []
        then ''  Field Values:'' @ nl
             @ concat (map (\<lambda>(field_name, v). ''    - '' @ field_name @ '': '' @ v @ nl) (item_field_values it))
        else [])
     @ nl"

definition fmt_pagination :: "items_page \<Rightarrow> string" where
  "fmt_pagination page =
     (case nonempty (page_end_cursor page) of
        Some end_cursor \<Rightarrow>
          (if page_has_next page
           then nl @ ''--- Pagination ---'' @ nl
                @ ''More items available: Yes'' @ nl
                @ ''Next page cursor: '' @ end_cursor @ nl
                @ ''To get the next page, use the cursor parameter:'' @ nl
                @ ''cursor: '' @ end_cursor @ nl
           else [])
      | None \<Rightarrow> [])"

text \<open>
  The schema lookup of the zero-item branch, run for a truthy filter name and value.
  Its handler \<^verbatim>\<open>except Exception\<close> swallows what the lookup and the reading of the
  field raise, and the tool goes on to its last return.
\<close>

definition debug_lookup ::
  "text_ops \<Rightarrow> 'w client \<Rightarrow> string \<Rightarrow> int \<Rightarrow> int \<Rightarrow> string \<Rightarrow> string \<Rightarrow> string
    \<Rightarrow> 'w run_state \<Rightarrow> (error + string) \<times> 'w run_state" where
  "debug_lookup ops cl owner project_number limit fdesc n v s1 =
     (let plain = Inr (no_items_message owner project_number fdesc);
          swallowed = (\<lambda>e. if is_exception e then plain else Inl e)
      in case invoke (GetProjectFieldsDetails owner project_number)
                (client_get_project_fields_details cl owner project_number) s1 of
           (Inl e, s2) \<Rightarrow> (swallowed e, s2)
         | (Inr fields_details, s2) \<Rightarrow>
             (case find_field ops fields_details n of
                None \<Rightarrow> (plain, s2)
              | Some field_info \<Rightarrow>
                  (if fd_type field_info = ''ProjectV2SingleSelectField'' then
                     (case keys_of (fd_options field_info) of
                        Inr available_options \<Rightarrow>
                          (Inr (debug_message owner project_number fdesc limit n v (fd_type field_info)
                                  ''options'' available_options), s2)
                      | Inl e \<Rightarrow> (swallowed e, s2))
                   else if fd_type field_info = ''ProjectV2IterationField'' then
                     (case keys_of (fd_iterations field_info) of
                        Inr available_iterations \<Rightarrow>
                          (Inr (debug_message owner project_number fdesc limit n v (fd_type field_info)
                                  ''iterations'' available_iterations), s2)
                      | Inl e \<Rightarrow> (swallowed e, s2))
                   else (plain, s2))))"

definition get_project_items ::
  "text_ops \<Rightarrow> 'w client \<Rightarrow> string \<Rightarrow> int \<Rightarrow> int \<Rightarrow> string option \<Rightarrow> string option \<Rightarrow> string option
    \<Rightarrow> string option \<Rightarrow> 'w run_state \<Rightarrow> (error + string) \<times> 'w run_state" where
  "get_project_items ops cl owner project_number limit state filter_field_name filter_field_value cursor s =
     (if truthy state \<and> truthy filter_field_name
      then (Inr ''Error: Cannot filter by both 'state' and a custom field ('filter_field_name') simultaneously.'', s)
      else
        (case invoke (GetProjectItems owner project_number limit state filter_field_name filter_field_value cursor)
                (client_get_project_items cl owner project_number limit state filter_field_name
                   filter_field_value cursor) s of
           (Inl (GitHubClientError e), s1) \<Rightarrow>
             (Inr (''Error: Could not get items for project '' @ owner @ ''/'' @ str_int project_number
                   @ ''. Details: '' @ e), s1)
         | (Inl (ValueError e), s1) \<Rightarrow>
             (Inr (''Error: Could not get items for project '' @ owner @ ''/'' @ str_int project_number
                   @ ''. Details: '' @ e), s1)
         | (Inl (OtherError e), s1) \<Rightarrow> (Inl (OtherError e), s1)
         | (Inl (BaseError e), s1) \<Rightarrow> (Inl (BaseError e), s1)
         | (Inr page, s1) \<Rightarrow>
             (let fdesc = filter_desc ops state filter_field_name filter_field_value;
                  pagination_desc = (if truthy cursor then '' (continued)'' else [])
              in if page_items page = [] then
                   (if truthy cursor
                    then (Inr (''No more items found in project #'' @ str_int project_number @ '' for ''
                               @ owner @ fdesc), s1)
                    else
                      (case nonempty filter_field_name of
                         Some n \<Rightarrow>
                           (case nonempty filter_field_value of
                              Some v \<Rightarrow> debug_lookup ops cl owner project_number limit fdesc n v s1
                            | None \<Rightarrow> (Inr (no_items_message owner project_number fdesc), s1))
                       | None \<Rightarrow> (Inr (no_items_message owner project_number fdesc), s1)))
                 else
                   (Inr (''Items in project #'' @ str_int project_number @ '' for '' @ owner @ fdesc
                         @ pagination_desc @ '':'' @ nl @ nl
                         @ concat (map fmt_item (page_items page))
                         @ fmt_pagination page), s1))))"

text \<open>Truthiness of an \<^verbatim>\<open>Optional[List[str]]\<close>.\<close>

definition truthy_list :: "string list option \<Rightarrow> bool" where
  "truthy_list v = (case v of None \<Rightarrow> False | Some xs \<Rightarrow> xs \<noteq> [])"

definition assignees_info :: "string list option \<Rightarrow> issue \<Rightarrow> string" where
  "assignees_info assignees iss =
     (if truthy_list assignees \<and> issue_assignee_logins iss \<noteq> []
      then ''Assignees: '' @ join '', '' (issue_assignee_logins iss) @ nl
      else [])"

definition create_issue ::
  "'w client \<Rightarrow> string \<Rightarrow> string \<Rightarrow> string \<Rightarrow> string \<Rightarrow> string list option
    \<Rightarrow> 'w run_state \<Rightarrow> (error + string) \<times> 'w run_state" where
  "create_issue cl owner repo title body assignees s =
     (case invoke (CreateIssue owner repo title body assignees)
             (client_create_issue cl owner repo title body assignees) s of
        (Inr iss, s1) \<Rightarrow>
          (if issue_number iss = Absent \<or> issue_title iss = Absent \<or> issue_url iss = Absent
           then (Inl key_error, s1)
           else (Inr (''Issue created successfully!'' @ nl @ nl
                      @ ''Repository: '' @ owner @ ''/'' @ repo @ nl
                      @ ''Issue Number: #'' @ fmt_int_opt (dict_get (issue_number iss)) @ nl
                      @ ''Title: '' @ fmt_str_opt (dict_get (issue_title iss)) @ nl
                      @ assignees_info assignees iss
                      @ ''URL: '' @ fmt_str_opt (dict_get (issue_url iss)) @ nl), s1))
      | (Inl (GitHubClientError e), s1) \<Rightarrow>
          (Inr (''Error: Could not create issue in '' @ owner @ ''/'' @ repo @ ''. Details: '' @ e), s1)
      | (Inl (ValueError e), s1) \<Rightarrow> (Inl (ValueError e), s1)
      | (Inl (OtherError e), s1) \<Rightarrow> (Inl (OtherError e), s1)
      | (Inl (BaseError e), s1) \<Rightarrow> (Inl (BaseError e), s1))"

definition add_issue_to_project ::
  "'w client \<Rightarrow> string \<Rightarrow> int \<Rightarrow> string \<Rightarrow> string \<Rightarrow> int
    \<Rightarrow> 'w run_state \<Rightarrow> (error + string) \<times> 'w run_state" where
  "add_issue_to_project cl owner project_number issue_owner issue_repo issue_num s =
     (case invoke (AddIssueToProject owner project_number issue_owner issue_repo (Some issue_num))
             (client_add_issue_to_project cl owner project_number issue_owner issue_repo (Some issue_num)) s of
        (Inr new_item, s1) \<Rightarrow>
          (if new_item = Absent then (Inl key_error, s1)
           else (Inr (''Successfully added issue '' @ issue_owner @ ''/'' @ issue_repo @ ''#''
                      @ str_int issue_num @ '' to project #'' @ str_int project_number @ ''!'' @ nl
                      @ ''Item ID: '' @ fmt_str_opt (dict_get new_item)), s1))
      | (Inl (GitHubClientError e), s1) \<Rightarrow>
          (Inr (''Error: Could not add issue to project. Details: '' @ e), s1)
      | (Inl (ValueError e), s1) \<Rightarrow> (Inl (ValueError e), s1)
      | (Inl (OtherError e), s1) \<Rightarrow> (Inl (OtherError e), s1)
      | (Inl (BaseError e), s1) \<Rightarrow> (Inl (BaseError e), s1))"

text \<open>The text \<^verbatim>\<open>add_issue_to_project_with_dates\<close> returns after a successful add.\<close>

definition added_message :: "string \<Rightarrow> string \<Rightarrow> int \<Rightarrow> int \<Rightarrow> string option \<Rightarrow> string \<Rightarrow> string" where
  "added_message issue_owner issue_repo issue_num project_number new_id date_msg =
     ''Successfully added issue '' @ issue_owner @ ''/'' @ issue_repo @ ''#'' @ str_int issue_num
     @ '' to project #'' @ str_int project_number @ ''!'' @ nl
     @ ''Item ID: '' @ fmt_str_opt new_id @ date_msg"

definition dates_set_message :: "(string \<times> string) list \<Rightarrow> string" where
  "dates_set_message updates =
     (if updates \<noteq> []
      then nl @ ''Dates set:'' @ nl @ join nl (map (\<lambda>(k, v). ''  - '' @ k @ '': '' @ v) updates)
      else nl @ ''Warning: No date fields updated (fields may not exist).'')"

definition add_issue_to_project_with_dates ::
  "'w client \<Rightarrow> string \<Rightarrow> int \<Rightarrow> string \<Rightarrow> string \<Rightarrow> int \<Rightarrow> string option \<Rightarrow> string option
    \<Rightarrow> string \<Rightarrow> string \<Rightarrow> 'w run_state \<Rightarrow> (error + string) \<times> 'w run_state" where
  "add_issue_to_project_with_dates cl owner project_number issue_owner issue_repo issue_num
       start_date end_date start_field_name end_field_name s =
     (case invoke (AddIssueToProject owner project_number issue_owner issue_repo (Some issue_num))
             (client_add_issue_to_project cl owner project_number issue_owner issue_repo (Some issue_num)) s of
        (Inl (GitHubClientError e), s1) \<Rightarrow>
          (Inr (''Error: Could not add issue or set dates. Details: '' @ e), s1)
      | (Inl (ValueError e), s1) \<Rightarrow> (Inl (ValueError e), s1)
      | (Inl (OtherError e), s1) \<Rightarrow> (Inl (OtherError e), s1)
      | (Inl (BaseError e), s1) \<Rightarrow> (Inl (BaseError e), s1)
      | (Inr new_item, s1) \<Rightarrow>
          (let new_id = dict_get new_item;
               plain = (Inr (added_message issue_owner issue_repo issue_num project_number new_id []), s1)
           in case nonempty new_id of
                None \<Rightarrow> plain
              | Some item_id \<Rightarrow>
                  (if truthy start_date \<or> truthy end_date then
                     (case invoke (SetProjectItemDates owner project_number item_id start_date end_date
                                     start_field_name end_field_name)
                             (client_set_project_item_dates cl owner project_number item_id start_date
                                     end_date start_field_name end_field_name) s1 of
                        (Inr updates, s2) \<Rightarrow>
                          (Inr (added_message issue_owner issue_repo issue_num project_number new_id
                                  (dates_set_message updates)), s2)
                      | (Inl (GitHubClientError e), s2) \<Rightarrow>
                          (Inr (added_message issue_owner issue_repo issue_num project_number new_id
                                  (nl @ ''Warning: Issue added but failed to set dates: '' @ e)), s2)
                      | (Inl (ValueError e), s2) \<Rightarrow>
                          (Inr (added_message issue_owner issue_repo issue_num project_number new_id
                                  (nl @ ''Warning: Issue added but failed to set dates: '' @ e)), s2)
                      | (Inl (OtherError e), s2) \<Rightarrow> (Inl (OtherError e), s2)
                      | (Inl (BaseError e), s2) \<Rightarrow> (Inl (BaseError e), s2))
                   else plain)))"

text \<open>The text \<^verbatim>\<open>create_issue_and_add_to_project\<close> returns after a successful add.\<close>

definition created_message ::
  "string \<Rightarrow> string \<Rightarrow> string list option \<Rightarrow> issue \<Rightarrow> string option \<Rightarrow> string \<Rightarrow> string" where
  "created_message owner repo assignees iss new_id date_msg =
     ''Issue created and added to project successfully!'' @ nl @ nl
     @ ''Repository: '' @ owner @ ''/'' @ repo @ nl
     @ ''Issue Number: #'' @ fmt_int_opt (dict_get (issue_number iss)) @ nl
     @ ''Title: '' @ fmt_str_opt (dict_get (issue_title iss)) @ nl
     @ ''URL: '' @ fmt_str_opt (dict_get (issue_url iss)) @ nl
     @ ''Project Item ID: '' @ fmt_str_opt new_id @ date_msg @ nl
     @ assignees_info assignees iss"

definition create_issue_and_add_to_project ::
  "'w client \<Rightarrow> string \<Rightarrow> string \<Rightarrow> int \<Rightarrow> string \<Rightarrow> string \<Rightarrow> string list option
    \<Rightarrow> string option \<Rightarrow> string option \<Rightarrow> string \<Rightarrow> string
    \<Rightarrow> 'w run_state \<Rightarrow> (error + string) \<times> 'w run_state" where
  "create_issue_and_add_to_project cl owner repo project_number title body assignees
       start_date end_date start_field_name end_field_name s =
     (case invoke (CreateIssue owner repo title body assignees)
             (client_create_issue cl owner repo title body assignees) s of
        (Inl (GitHubClientError e), s1) \<Rightarrow>
          (Inr (''Error: Could not create/add issue or set dates. Details: '' @ e), s1)
      | (Inl (ValueError e), s1) \<Rightarrow> (Inl (ValueError e), s1)
      | (Inl (OtherError e), s1) \<Rightarrow> (Inl (OtherError e), s1)
      | (Inl (BaseError e), s1) \<Rightarrow> (Inl (BaseError e), s1)
      | (Inr iss, s1) \<Rightarrow>
          (case invoke (AddIssueToProject owner project_number owner repo (dict_get (issue_number iss)))
                  (client_add_issue_to_project cl owner project_number owner repo
                     (dict_get (issue_number iss))) s1 of
             (Inl (GitHubClientError e), s2) \<Rightarrow>
               (Inr (''Error: Could not create/add issue or set dates. Details: '' @ e), s2)
           | (Inl (ValueError e), s2) \<Rightarrow> (Inl (ValueError e), s2)
           | (Inl (OtherError e), s2) \<Rightarrow> (Inl (OtherError e), s2)
           | (Inl (BaseError e), s2) \<Rightarrow> (Inl (BaseError e), s2)
           | (Inr new_item, s2) \<Rightarrow>
               (let new_id = dict_get new_item;
                    plain = (Inr (created_message owner repo assignees iss new_id []), s2)
                in case nonempty new_id of
                     None \<Rightarrow> plain
                   | Some item_id \<Rightarrow>
                       (if truthy start_date \<or> truthy end_date then
                          (case invoke (SetProjectItemDates owner project_number item_id start_date end_date
                                          start_field_name end_field_name)
                                  (client_set_project_item_dates cl owner project_number item_id start_date
                                          end_date start_field_name end_field_name) s2 of
                             (Inr updates, s3) \<Rightarrow>
                               (Inr (created_message owner repo assignees iss new_id
                                       (dates_set_message updates)), s3)
                           | (Inl (GitHubClientError e), s3) \<Rightarrow>
                               (Inr (created_message owner repo assignees iss new_id
                                       (nl @ ''Warning: Issue created and added but failed to set dates: '' @ e)), s3)
                           | (Inl (ValueError e), s3) \<Rightarrow>
                               (Inr (created_message owner repo assignees iss new_id
                                       (nl @ ''Warning: Issue created and added but failed to set dates: '' @ e)), s3)
                           | (Inl (OtherError e), s3) \<Rightarrow> (Inl (OtherError e), s3)
                           | (Inl (BaseError e), s3) \<Rightarrow> (Inl (BaseError e), s3))
                        else plain))))"

text \<open>
  The type inference of \<^verbatim>\<open>update_project_item_field\<close>. \<open>py_float\<close> is Python's
  \<^verbatim>\<open>float(str)\<close>, a parameter of the model: \<open>None\<close> where it raises ValueError. An
  exception of \<^verbatim>\<open>int(parsed_value)\<close> other than ValueError leaves the inner
  \<^verbatim>\<open>try\<close>; a ValueError keeps the float.
\<close>

definition parsed_value :: "(string \<Rightarrow> pyfloat option) \<Rightarrow> string \<Rightarrow> error + pvalue" where
  "parsed_value py_float field_value =
     (case py_float field_value of
        None \<Rightarrow> Inr (VStr field_value)
      | Some f \<Rightarrow>
          (if is_integer f then
             (case int_of_float f of
                Inr i \<Rightarrow> Inr (VInt i)
              | Inl (ValueError e) \<Rightarrow> Inr (VFloat f)
              | Inl (GitHubClientError e) \<Rightarrow> Inl (GitHubClientError e)
              | Inl (OtherError e) \<Rightarrow> Inl (OtherError e)
              | Inl (BaseError e) \<Rightarrow> Inl (BaseError e))
           else Inr (VFloat f)))"

definition update_project_item_field ::
  "(string \<Rightarrow> pyfloat option) \<Rightarrow> 'w client \<Rightarrow> string \<Rightarrow> int \<Rightarrow> string \<Rightarrow> string \<Rightarrow> string
    \<Rightarrow> 'w run_state \<Rightarrow> (error + string) \<times> 'w run_state" where
  "update_project_item_field py_float cl owner project_number item_id field_id field_value s =
     (case parsed_value py_float field_value of
        Inl (GitHubClientError e) \<Rightarrow> (Inr (''Error: Could not update field value. Details: '' @ e), s)
      | Inl (ValueError e) \<Rightarrow> (Inl (ValueError e), s)
      | Inl (OtherError e) \<Rightarrow> (Inl (OtherError e), s)
      | Inl (BaseError e) \<Rightarrow> (Inl (BaseError e), s)
      | Inr pv \<Rightarrow>
          (case invoke (UpdateProjectItemField owner project_number item_id field_id pv)
                  (client_update_project_item_field cl owner project_number item_id field_id pv) s of
             (Inr u, s1) \<Rightarrow>
               (Inr (''Successfully updated field for item in project #'' @ str_int project_number @ ''!'' @ nl
                     @ ''Item ID: '' @ item_id @ nl
                     @ ''Field ID: '' @ field_id @ nl
                     @ ''Value Set: '' @ field_value), s1)
           | (Inl (GitHubClientError e), s1) \<Rightarrow>
               (Inr (''Error: Could not update field value. Details: '' @ e), s1)
           | (Inl (ValueError e), s1) \<Rightarrow> (Inl (ValueError e), s1)
           | (Inl (OtherError e), s1) \<Rightarrow> (Inl (OtherError e), s1)
           | (Inl (BaseError e), s1) \<Rightarrow> (Inl (BaseError e), s1)))"

definition create_draft_issue ::
  "'w client \<Rightarrow> string \<Rightarrow> int \<Rightarrow> string \<Rightarrow> string \<Rightarrow> string list option
    \<Rightarrow> 'w run_state \<Rightarrow> (error + string) \<times> 'w run_state" where
  "create_draft_issue cl owner project_number title body assignees s =
     (case invoke (AddDraftIssueToProject owner project_number title body assignees)
             (client_add_draft_issue_to_project cl owner project_number title body assignees) s of
        (Inr new_item, s1) \<Rightarrow>
          (if new_item = Absent then (Inl key_error, s1)
           else (Inr (''Successfully created draft issue in project #'' @ str_int project_number @ ''!'' @ nl
                      @ ''Item ID: '' @ fmt_str_opt (dict_get new_item) @ nl
                      @ ''Title: '' @ title), s1))
      | (Inl (GitHubClientError e), s1) \<Rightarrow>
          (Inr (''Error: Could not create draft issue. Details: '' @ e), s1)
      | (Inl (ValueError e), s1) \<Rightarrow> (Inl (ValueError e), s1)
      | (Inl (OtherError e), s1) \<Rightarrow> (Inl (OtherError e), s1)
      | (Inl (BaseError e), s1) \<Rightarrow> (Inl (BaseError e), s1))"

definition delete_project_item ::
  "'w client \<Rightarrow> string \<Rightarrow> int \<Rightarrow> string \<Rightarrow> 'w run_state \<Rightarrow> (error + string) \<times> 'w run_state" where
  "delete_project_item cl owner project_number item_id s =
     (case invoke (DeleteProjectItem owner project_number item_id)
             (client_delete_project_item cl owner project_number item_id) s of
        (Inr deleted_item_id, s1) \<Rightarrow>
          (Inr (''Successfully deleted item from project #'' @ str_int project_number @ ''!'' @ nl
                @ ''Deleted Item ID: '' @ fmt_str_opt deleted_item_id), s1)
      | (Inl (GitHubClientError e), s1) \<Rightarrow>
          (Inr (''Error: Could not delete item. Details: '' @ e), s1)
      | (Inl (ValueError e), s1) \<Rightarrow> (Inl (ValueError e), s1)
      | (Inl (OtherError e), s1) \<Rightarrow> (Inl (OtherError e), s1)
      | (Inl (BaseError e), s1) \<Rightarrow> (Inl (BaseError e), s1))"

subsection \<open>The tools as one dispatch\<close>

datatype tool_call =
    ListProjects string
  | GetProjectFields string int
  | GetProjectItemsTool string int int "string option" "string option" "string option" "string option"
  | CreateIssueTool string string string string "string list option"
  | AddIssueToProjectTool string int string string int
  | SetProjectItemDatesTool string int string "string option" "string option" string string
  | AddIssueToProjectWithDates string int string string int "string option" "string option" string string
  | CreateIssueAndAddToProject string string int string string "string list option"
      "string option" "string option" string string
  | UpdateProjectItemFieldTool string int string string string
  | CreateDraftIssue string int string string "string list option"
  | DeleteProjectItemTool string int string

fun run_tool ::
  "(string \<Rightarrow> pyfloat option) \<Rightarrow> text_ops \<Rightarrow> 'w client \<Rightarrow> tool_call \<Rightarrow> 'w run_state
    \<Rightarrow> (error + string) \<times> 'w run_state" where
  "run_tool pf ops cl (ListProjects owner) s = list_projects cl owner s"
| "run_tool pf ops cl (GetProjectFields owner pn) s = get_project_fields cl owner pn s"
| "run_tool pf ops cl (GetProjectItemsTool owner pn limit state fname fvalue cursor) s =
     get_project_items ops cl owner pn limit state fname fvalue cursor s"
| "run_tool pf ops cl (CreateIssueTool owner repo title body assignees) s =
     create_issue cl owner repo title body assignees s"
| "run_tool pf ops cl (AddIssueToProjectTool owner pn issue_owner issue_repo issue_num) s =
     add_issue_to_project cl owner pn issue_owner issue_repo issue_num s"
| "run_tool pf ops cl (SetProjectItemDatesTool owner pn item_id start_date end_date sname ename) s =
     set_project_item_dates cl owner pn item_id start_date end_date sname ename s"
| "run_tool pf ops cl (AddIssueToProjectWithDates owner pn issue_owner issue_repo issue_num start_date end_date
       sname ename) s =
     add_issue_to_project_with_dates cl owner pn issue_owner issue_repo issue_num start_date end_date
       sname ename s"
| "run_tool pf ops cl (CreateIssueAndAddToProject owner repo pn title body assignees start_date end_date
       sname ename) s =
     create_issue_and_add_to_project cl owner repo pn title body assignees start_date end_date sname ename s"
| "run_tool pf ops cl (UpdateProjectItemFieldTool owner pn item_id field_id field_value) s =
     update_project_item_field pf cl owner pn item_id field_id field_value s"
| "run_tool pf ops cl (CreateDraftIssue owner pn title body assignees) s =
     create_draft_issue cl owner pn title body assignees s"
| "run_tool pf ops cl (DeleteProjectItemTool owner pn item_id) s = delete_project_item cl owner pn item_id s"

subsection \<open>Concrete clients\<close>

text \<open>
  A client that answers every call of a method with one fixed response; its world
  counts the calls it has answered.
\<close>

record responses =
  on_get_projects :: "error + project list"
  on_get_project_fields_details :: "error + (string \<times> field_details) list"
  on_get_project_items :: "error + items_page"
  on_create_issue :: "error + issue"
  on_add_issue_to_project :: "error + string entry"
  on_set_project_item_dates :: "error + (string \<times> string) list"
  on_update_project_item_field :: "error + unit"
  on_add_draft_issue_to_project :: "error + string entry"
  on_delete_project_item :: "error + string option"

definition fixed_client :: "responses \<Rightarrow> nat client" where
  "fixed_client r =
     \<lparr> client_get_projects = (\<lambda>owner w. (on_get_projects r, Suc w)),
       client_get_project_fields_details = (\<lambda>owner pn w. (on_get_project_fields_details r, Suc w)),
       client_get_project_items = (\<lambda>owner pn limit state fname fvalue cursor w. (on_get_project_items r, Suc w)),
       client_create_issue = (\<lambda>owner repo title body assignees w. (on_create_issue r, Suc w)),
       client_add_issue_to_project = (\<lambda>owner pn issue_owner issue_repo issue_num w. (on_add_issue_to_project r, Suc w)),
       client_set_project_item_dates =
         (\<lambda>owner pn item_id start_date end_date sname ename w. (on_set_project_item_dates r, Suc w)),
       client_update_project_item_field = (\<lambda>owner pn item_id field_id v w. (on_update_project_item_field r, Suc w)),
       client_add_draft_issue_to_project = (\<lambda>owner pn title body assignees w. (on_add_draft_issue_to_project r, Suc w)),
       client_delete_project_item = (\<lambda>owner pn item_id w. (on_delete_project_item r, Suc w)) \<rparr>"

text \<open>A healthy service: one project, no items, an issue numbered 42.\<close>

definition status_field :: field_details where
  "status_field =
     \<lparr> fd_id = ''PVTSSF_1'', fd_type = ''ProjectV2SingleSelectField'',
       fd_options = Value [(''Todo'', ''opt1''), (''Done'', ''opt2'')], fd_iterations = Absent \<rparr>"

definition sprint_field :: field_details where
  "sprint_field =
     \<lparr> fd_id = ''PVTIF_1'', fd_type = ''ProjectV2IterationField'',
       fd_options = Absent, fd_iterations = Value [(''Sprint 1'', ''it1'')] \<rparr>"

definition notes_field :: field_details where
  "notes_field =
     \<lparr> fd_id = ''PVTF_1'', fd_type = ''ProjectV2Field'', fd_options = Absent, fd_iterations = Absent \<rparr>"

definition issue42 :: issue where
  "issue42 =
     \<lparr> issue_number = Value 42, issue_title = Value ''Fix login'',
       issue_url = Value ''https://github.com/octo/app/issues/42'', issue_assignee_logins = [] \<rparr>"

definition healthy :: responses where
  "healthy =
     \<lparr> on_get_projects = Inr [],
       on_get_project_fields_details = Inr [(''Notes'', notes_field), (''status'', status_field), (''Status'', sprint_field)],
       on_get_project_items = Inr \<lparr> page_items = [], page_has_next = False, page_end_cursor = None \<rparr>,
       on_create_issue = Inr issue42,
       on_add_issue_to_project = Inr (Value ''PVTI_7''),
       on_set_project_item_dates = Inr [(''Start Date'', ''2025-01-01'')],
       on_update_project_item_field = Inr (),
       on_add_draft_issue_to_project = Inr (Value ''PVTI_8''),
       on_delete_project_item = Inr (Some ''PVTI_7'') \<rparr>"

text \<open>A fragment of \<^verbatim>\<open>float\<close>, for concrete runs of the type inference.\<close>

definition sample_float :: "string \<Rightarrow> pyfloat option" where
  "sample_float t =
     (if t = ''3.0'' then Some (Finite 3)
      else if t = ''2.5'' then Some (Finite (5 / 2))
      else if t = ''inf'' then Some PosInf
      else None)"

subsection \<open>Where each tool handles the exceptions of the client\<close>

text \<open>
  The client calls a tool makes inside a nested \<^verbatim>\<open>try\<close> block: the date step of the
  two composed tools, whose handler turns a failure into a warning, and the schema
  lookup of \<open>get_project_items\<close>, whose handler swallows every exception.
\<close>

definition nested_call :: "tool_call \<Rightarrow> call \<Rightarrow> bool" where
  "nested_call tc c =
     (case c of
        SetProjectItemDates _ _ _ _ _ _ _ \<Rightarrow>
          (case tc of
             AddIssueToProjectWithDates _ _ _ _ _ _ _ _ _ \<Rightarrow> True
           | CreateIssueAndAddToProject _ _ _ _ _ _ _ _ _ _ \<Rightarrow> True
           | _ \<Rightarrow> False)
      | GetProjectFieldsDetails _ _ \<Rightarrow>
          (case tc of GetProjectItemsTool _ _ _ _ _ _ _ \<Rightarrow> True | _ \<Rightarrow> False)
      | _ \<Rightarrow> False)"

text \<open>The tools whose outer handler names \<^verbatim>\<open>ValueError\<close> beside \<^verbatim>\<open>GitHubClientError\<close>.\<close>

definition catches_value_error :: "tool_call \<Rightarrow> bool" where
  "catches_value_error tc =
     (case tc of
        GetProjectItemsTool _ _ _ _ _ _ _ \<Rightarrow> True
      | SetProjectItemDatesTool _ _ _ _ _ _ _ \<Rightarrow> True
      | _ \<Rightarrow> False)"

text \<open>
  The text a tool returns when a nested call raised a client or validation error with
  message \<open>m\<close>: the text of the successful steps with a warning for the date step, the
  plain no-items text for the schema lookup.
\<close>

definition nested_text :: "text_ops \<Rightarrow> tool_call \<Rightarrow> string \<Rightarrow> string \<Rightarrow> bool" where
  "nested_text ops tc m t =
     (case tc of
        AddIssueToProjectWithDates owner pn issue_owner issue_repo issue_num sd ed sname ename \<Rightarrow>
          (\<exists>new_id. t = added_message issue_owner issue_repo issue_num pn new_id
                           (nl @ ''Warning: Issue added but failed to set dates: '' @ m))
      | CreateIssueAndAddToProject owner repo pn title body assignees sd ed sname ename \<Rightarrow>
          (\<exists>iss new_id. t = created_message owner repo assignees iss new_id
                           (nl @ ''Warning: Issue created and added but failed to set dates: '' @ m))
      | GetProjectItemsTool owner pn limit state fname fvalue cursor \<Rightarrow>
          t = no_items_message owner pn (filter_desc ops state fname fvalue)
      | _ \<Rightarrow> False)"

text \<open>
  How a run treats the client errors with message \<open>m\<close>: \<open>res\<close> is what the tool returned
  and \<open>evs\<close> the client calls of the run.
\<close>

definition caught :: "text_ops \<Rightarrow> string \<Rightarrow> tool_call \<Rightarrow> error + string \<Rightarrow> event list \<Rightarrow> bool" where
  "caught ops m tc res evs =
     (res \<noteq> Inl (GitHubClientError m)
      \<and> (catches_value_error tc \<longrightarrow> res \<noteq> Inl (ValueError m))
      \<and> (\<forall>c err. (c, Some err) \<in> set evs
            \<and> (err = GitHubClientError m \<or> err = ValueError m \<and> catches_value_error tc)
            \<and> \<not> nested_call tc c
          \<longrightarrow> (\<exists>t. res = Inr t \<and> prefix ''Error:'' t \<and> sublist m t))
      \<and> (\<forall>c err. (c, Some err) \<in> set evs
            \<and> (err = GitHubClientError m \<or> err = ValueError m)
            \<and> nested_call tc c
          \<longrightarrow> (\<exists>t. res = Inr t \<and> nested_text ops tc m t \<and> \<not> prefix ''Error:'' t
                 \<and> ((\<forall>owner pn. c \<noteq> GetProjectFieldsDetails owner pn) \<longrightarrow> sublist m t))))"

section \<open>Properties\<close>

subsection \<open>Auxiliary facts\<close>

lemma sublist_in_right: "sublist x b \<Longrightarrow> sublist x (a @ b)"
  by (auto simp: sublist_append)

lemma sublist_in_left: "sublist x a \<Longrightarrow> sublist x (a @ b)"
  by (auto simp: sublist_append)

lemma added_message_prefix:
  "prefix ''Successfully added issue '' (added_message io ir n pn new_id msg)"
  by (simp add: added_message_def)

lemma added_message_not_error:
  "\<not> prefix ''Error:'' (added_message io ir n pn new_id msg)"
  by (simp add: added_message_def)

lemma added_message_has_id:
  "sublist i (added_message io ir n pn (Some i) msg)"
  unfolding added_message_def fmt_str_opt_def option.case
  by (intro sublist_in_right sublist_append_rightI)

lemma added_message_has_msg:
  "sublist e (added_message io ir n pn new_id (w @ e))"
  unfolding added_message_def
  by (intro sublist_in_right sublist_append_leftI)

subsection \<open>Validation before any client call\<close>

text \<open>
  Claim C5. When neither \<open>start_date\<close> nor \<open>end_date\<close> is supplied,
  \<open>set_project_item_dates\<close> returns its validation error text and the run state is
  untouched: the trace gains no client call and the world is the one it started in,
  whatever the client is.
\<close>

theorem set_project_item_dates_no_dates_rejected:
  "set_project_item_dates cl owner pn item_id None None sname ename s
     = (Inr ''Error: Provide at least one of start_date or end_date'', s)"
  by (simp add: set_project_item_dates_def truthy_def)

text \<open>
  Claim C10. An empty string counts as an absent date: with each of \<open>start_date\<close> and
  \<open>end_date\<close> either omitted or empty, \<open>set_project_item_dates\<close> returns the same
  validation error text, makes no client call, and is the very run obtained with both
  dates omitted.
\<close>

theorem set_project_item_dates_empty_dates_rejected:
  "start_date \<in> {None, Some []} \<Longrightarrow> end_date \<in> {None, Some []} \<Longrightarrow>
   set_project_item_dates cl owner pn item_id start_date end_date sname ename s
     = (Inr ''Error: Provide at least one of start_date or end_date'', s)
   \<and> set_project_item_dates cl owner pn item_id start_date end_date sname ename s
     = set_project_item_dates cl owner pn item_id None None sname ename s"
  by (auto simp add: set_project_item_dates_def truthy_def)

theorem set_project_item_dates_empty_dates_rejected_witness:
  "set_project_item_dates (fixed_client healthy) ''octo'' 1 ''PVTI_7'' (Some []) (Some [])
       ''Start Date'' ''End Date'' ([], 0)
     = (Inr ''Error: Provide at least one of start_date or end_date'', ([], 0))"
  using set_project_item_dates_empty_dates_rejected
          [of "Some []" "Some []" "fixed_client healthy" "''octo''" 1 "''PVTI_7''"
              "''Start Date''" "''End Date''" "([], 0)"]
  by simp

text \<open>
  Claim C4. When both \<open>state\<close> and \<open>filter_field_name\<close> are supplied non-empty,
  \<open>get_project_items\<close> returns its validation error text and the run state is
  untouched: the client's \<open>get_project_items\<close> is never invoked, nor is any other
  client method.
\<close>

theorem get_project_items_both_filters_rejected:
  "truthy state \<Longrightarrow> truthy filter_field_name \<Longrightarrow>
   get_project_items ops cl owner pn limit state filter_field_name filter_field_value cursor s
     = (Inr ''Error: Cannot filter by both 'state' and a custom field ('filter_field_name') simultaneously.'', s)"
  by (simp add: get_project_items_def)

theorem get_project_items_both_filters_rejected_witness:
  "truthy (Some ''OPEN'') \<and> truthy (Some ''Status'') \<and>
   get_project_items ascii_ops (fixed_client healthy) ''octo'' 1 50 (Some ''OPEN'') (Some ''Status'')
       (Some ''open'') None ([], 0)
     = (Inr ''Error: Cannot filter by both 'state' and a custom field ('filter_field_name') simultaneously.'', ([], 0))"
proof -
  have a: "truthy (Some ''OPEN'')" and b: "truthy (Some ''Status'')"
    by (simp_all add: truthy_def)
  show ?thesis
    using a b get_project_items_both_filters_rejected [OF a b] by simp
qed

subsection \<open>Partial failure of the composed tools\<close>

lemma with_dates_add_fails:
  assumes "client_add_issue_to_project cl owner pn io ir (Some n) w = (Inl (GitHubClientError e), w1)"
  shows "add_issue_to_project_with_dates cl owner pn io ir n sd ed sname ename (tr, w)
     = (Inr (''Error: Could not add issue or set dates. Details: '' @ e),
        (tr @ [(AddIssueToProject owner pn io ir (Some n), Some (GitHubClientError e))], w1))"
  using assms by (simp add: add_issue_to_project_with_dates_def invoke_def raised_def)

lemma with_dates_dates_fail:
  assumes "client_add_issue_to_project cl owner pn io ir (Some n) w = (Inr (Value item_id), w1)"
    and "item_id \<noteq> []" and "truthy sd \<or> truthy ed"
    and "client_set_project_item_dates cl owner pn item_id sd ed sname ename w1 = (Inl err, w2)"
    and "err = GitHubClientError e \<or> err = ValueError e"
  shows "add_issue_to_project_with_dates cl owner pn io ir n sd ed sname ename (tr, w)
     = (Inr (added_message io ir n pn (Some item_id) (nl @ ''Warning: Issue added but failed to set dates: '' @ e)),
        (tr @ [(AddIssueToProject owner pn io ir (Some n), None),
               (SetProjectItemDates owner pn item_id sd ed sname ename, Some err)], w2))"
  using assms
  by (auto simp add: add_issue_to_project_with_dates_def invoke_def raised_def nonempty_def dict_get_def)

text \<open>
  Claim C3. In \<open>add_issue_to_project_with_dates\<close>: when the client's
  \<open>add_issue_to_project\<close> raises a client error, the tool returns the overall error text
  and makes no further call; when the add succeeds with a non-empty item id, a date is
  supplied and the client's \<open>set_project_item_dates\<close> raises a client error or a
  validation error, the tool returns the text of a successful add, which starts with
  \<open>Successfully added issue\<close>, does not start with \<open>Error:\<close>, holds the new item id and
  carries the warning with the message of the date failure.
\<close>

theorem add_with_dates_partial_failure:
  "(client_add_issue_to_project cl owner pn io ir (Some n) w = (Inl (GitHubClientError e), w1) \<longrightarrow>
      add_issue_to_project_with_dates cl owner pn io ir n sd ed sname ename (tr, w)
        = (Inr (''Error: Could not add issue or set dates. Details: '' @ e),
           (tr @ [(AddIssueToProject owner pn io ir (Some n), Some (GitHubClientError e))], w1)))
   \<and> (client_add_issue_to_project cl owner pn io ir (Some n) w = (Inr (Value item_id), w1)
        \<and> item_id \<noteq> [] \<and> (truthy sd \<or> truthy ed)
        \<and> client_set_project_item_dates cl owner pn item_id sd ed sname ename w1 = (Inl err, w2)
        \<and> (err = GitHubClientError e \<or> err = ValueError e) \<longrightarrow>
      (\<exists>txt. add_issue_to_project_with_dates cl owner pn io ir n sd ed sname ename (tr, w)
          = (Inr txt, (tr @ [(AddIssueToProject owner pn io ir (Some n), None),
                             (SetProjectItemDates owner pn item_id sd ed sname ename, Some err)], w2))
        \<and> txt = added_message io ir n pn (Some item_id) (nl @ ''Warning: Issue added but failed to set dates: '' @ e)
        \<and> prefix ''Successfully added issue '' txt \<and> \<not> prefix ''Error:'' txt
        \<and> sublist item_id txt \<and> sublist (''Warning: Issue added but failed to set dates: '' @ e) txt))"
proof (intro conjI impI)
  assume "client_add_issue_to_project cl owner pn io ir (Some n) w = (Inl (GitHubClientError e), w1)"
  then show "add_issue_to_project_with_dates cl owner pn io ir n sd ed sname ename (tr, w)
        = (Inr (''Error: Could not add issue or set dates. Details: '' @ e),
           (tr @ [(AddIssueToProject owner pn io ir (Some n), Some (GitHubClientError e))], w1))"
    by (rule with_dates_add_fails)
next
  assume h: "client_add_issue_to_project cl owner pn io ir (Some n) w = (Inr (Value item_id), w1)
        \<and> item_id \<noteq> [] \<and> (truthy sd \<or> truthy ed)
        \<and> client_set_project_item_dates cl owner pn item_id sd ed sname ename w1 = (Inl err, w2)
        \<and> (err = GitHubClientError e \<or> err = ValueError e)"
  let ?txt = "added_message io ir n pn (Some item_id) (nl @ ''Warning: Issue added but failed to set dates: '' @ e)"
  from h have h1: "client_add_issue_to_project cl owner pn io ir (Some n) w = (Inr (Value item_id), w1)"
    and h2: "item_id \<noteq> []" and h3: "truthy sd \<or> truthy ed"
    and h4: "client_set_project_item_dates cl owner pn item_id sd ed sname ename w1 = (Inl err, w2)"
    and h5: "err = GitHubClientError e \<or> err = ValueError e"
    by blast+
  have run: "add_issue_to_project_with_dates cl owner pn io ir n sd ed sname ename (tr, w)
          = (Inr ?txt, (tr @ [(AddIssueToProject owner pn io ir (Some n), None),
                             (SetProjectItemDates owner pn item_id sd ed sname ename, Some err)], w2))"
    by (rule with_dates_dates_fail [OF h1 h2 h3 h4 h5])
  have p1: "prefix ''Successfully added issue '' ?txt" by (rule added_message_prefix)
  have p2: "\<not> prefix ''Error:'' ?txt" by (rule added_message_not_error)
  have p3: "sublist item_id ?txt" by (rule added_message_has_id)
  have p4: "sublist (''Warning: Issue added but failed to set dates: '' @ e) ?txt"
    using added_message_has_msg [of "''Warning: Issue added but failed to set dates: '' @ e" io ir n pn "Some item_id" nl]
    by simp
  show "\<exists>txt. add_issue_to_project_with_dates cl owner pn io ir n sd ed sname ename (tr, w)
          = (Inr txt, (tr @ [(AddIssueToProject owner pn io ir (Some n), None),
                             (SetProjectItemDates owner pn item_id sd ed sname ename, Some err)], w2))
        \<and> txt = added_message io ir n pn (Some item_id) (nl @ ''Warning: Issue added but failed to set dates: '' @ e)
        \<and> prefix ''Successfully added issue '' txt \<and> \<not> prefix ''Error:'' txt
        \<and> sublist item_id txt \<and> sublist (''Warning: Issue added but failed to set dates: '' @ e) txt"
    by (intro exI [of _ ?txt] conjI run refl p1 p2 p3 p4)
qed


theorem add_with_dates_partial_failure_witness:
  "add_issue_to_project_with_dates
       (fixed_client (healthy\<lparr>on_add_issue_to_project := Inl (GitHubClientError ''Project not found'')\<rparr>))
       ''octo'' 1 ''octo'' ''app'' 42 (Some ''2025-01-01'') None ''Start Date'' ''End Date'' ([], 0)
     = (Inr ''Error: Could not add issue or set dates. Details: Project not found'',
        ([(AddIssueToProject ''octo'' 1 ''octo'' ''app'' (Some 42), Some (GitHubClientError ''Project not found''))], 1))
   \<and> (\<exists>txt. add_issue_to_project_with_dates
          (fixed_client (healthy\<lparr>on_set_project_item_dates := Inl (ValueError ''Invalid date'')\<rparr>))
          ''octo'' 1 ''octo'' ''app'' 42 (Some ''2025-01-01'') None ''Start Date'' ''End Date'' ([], 0)
        = (Inr txt,
           ([(AddIssueToProject ''octo'' 1 ''octo'' ''app'' (Some 42), None),
             (SetProjectItemDates ''octo'' 1 ''PVTI_7'' (Some ''2025-01-01'') None ''Start Date'' ''End Date'',
              Some (ValueError ''Invalid date''))], 2))
      \<and> prefix ''Successfully added issue '' txt \<and> \<not> prefix ''Error:'' txt
      \<and> sublist ''PVTI_7'' txt
      \<and> sublist ''Warning: Issue added but failed to set dates: Invalid date'' txt)"
proof -
  let ?bad_add = "fixed_client (healthy\<lparr>on_add_issue_to_project := Inl (GitHubClientError ''Project not found'')\<rparr>)"
  let ?bad_dates = "fixed_client (healthy\<lparr>on_set_project_item_dates := Inl (ValueError ''Invalid date'')\<rparr>)"
  have a: "client_add_issue_to_project ?bad_add ''octo'' 1 ''octo'' ''app'' (Some 42) 0
             = (Inl (GitHubClientError ''Project not found''), 1)"
    by (simp add: fixed_client_def)
  have b: "client_add_issue_to_project ?bad_dates ''octo'' 1 ''octo'' ''app'' (Some 42) 0 = (Inr (Value ''PVTI_7''), 1)
        \<and> ''PVTI_7'' \<noteq> [] \<and> (truthy (Some ''2025-01-01'') \<or> truthy None)
        \<and> client_set_project_item_dates ?bad_dates ''octo'' 1 ''PVTI_7'' (Some ''2025-01-01'') None
              ''Start Date'' ''End Date'' 1 = (Inl (ValueError ''Invalid date''), 2)
        \<and> (ValueError ''Invalid date'' = GitHubClientError ''Invalid date''
             \<or> ValueError ''Invalid date'' = ValueError ''Invalid date'')"
    by (simp add: fixed_client_def healthy_def truthy_def)
  note first = add_with_dates_partial_failure
      [where cl = "?bad_add" and tr = "[]" and sd = "Some ''2025-01-01''" and ed = None
         and sname = "''Start Date''" and ename = "''End Date''", THEN conjunct1, rule_format, OF a]
  note second = add_with_dates_partial_failure
      [where cl = "?bad_dates" and tr = "[]" and e = "''Invalid date''", THEN conjunct2, rule_format, OF b]
  from second obtain out where
    t: "add_issue_to_project_with_dates ?bad_dates ''octo'' 1 ''octo'' ''app'' 42
          (Some ''2025-01-01'') None ''Start Date'' ''End Date'' ([], 0)
        = (Inr out,
           ([(AddIssueToProject ''octo'' 1 ''octo'' ''app'' (Some 42), None),
             (SetProjectItemDates ''octo'' 1 ''PVTI_7'' (Some ''2025-01-01'') None ''Start Date'' ''End Date'',
              Some (ValueError ''Invalid date''))], 2))"
    and p: "prefix ''Successfully added issue '' out" "\<not> prefix ''Error:'' out"
           "sublist ''PVTI_7'' out"
           "sublist (''Warning: Issue added but failed to set dates: '' @ ''Invalid date'') out"
    by auto
  from p(4) have p4: "sublist ''Warning: Issue added but failed to set dates: Invalid date'' out"
    by simp
  from first have f: "add_issue_to_project_with_dates ?bad_add
       ''octo'' 1 ''octo'' ''app'' 42 (Some ''2025-01-01'') None ''Start Date'' ''End Date'' ([], 0)
     = (Inr ''Error: Could not add issue or set dates. Details: Project not found'',
        ([(AddIssueToProject ''octo'' 1 ''octo'' ''app'' (Some 42), Some (GitHubClientError ''Project not found''))], 1))"
    by simp
  show ?thesis
    by (intro conjI exI [of _ out] f t p(1) p(2) p(3) p4)
qed

subsection \<open>The zero-item branch of \<open>get_project_items\<close>\<close>

lemmas text_eval =
  nl_def str_int_def digit_char_def hex_digit_def ascii_ops_def ascii_lower_def lower_char_def
  ascii_upper_def upper_char_def repr_list_def repr_str_def repr_char_def fmt_str_opt_def fmt_int_opt_def
  dict_get_def Let_def

lemma debug_lookup_trace:
  "snd (debug_lookup ops cl owner pn limit fdesc n v (tr, w1))
     = (tr @ [(GetProjectFieldsDetails owner pn,
               raised (fst (client_get_project_fields_details cl owner pn w1)))],
        snd (client_get_project_fields_details cl owner pn w1))"
  by (simp add: debug_lookup_def invoke_def Let_def split: prod.splits sum.splits option.splits)


lemma zero_items_run:
  assumes "\<not> truthy state" "\<not> truthy cursor" "nonempty fname = Some n" "nonempty fvalue = Some v"
    and "client_get_project_items cl owner pn limit state fname fvalue cursor w = (Inr page, w1)"
    and "page_items page = []"
  shows "get_project_items ops cl owner pn limit state fname fvalue cursor (tr, w)
     = debug_lookup ops cl owner pn limit (filter_desc ops state fname fvalue) n v
         (tr @ [(GetProjectItems owner pn limit state fname fvalue cursor, None)], w1)"
  using assms by (simp add: get_project_items_def invoke_def raised_def)

lemma zero_items_cursor_run:
  assumes "\<not> truthy state \<or> \<not> truthy fname" "truthy cursor"
    and "client_get_project_items cl owner pn limit state fname fvalue cursor w = (Inr page, w1)"
    and "page_items page = []"
  shows "get_project_items ops cl owner pn limit state fname fvalue cursor (tr, w)
     = (Inr (''No more items found in project #'' @ str_int pn @ '' for '' @ owner
             @ filter_desc ops state fname fvalue),
        (tr @ [(GetProjectItems owner pn limit state fname fvalue cursor, None)], w1))"
  using assms by (auto simp add: get_project_items_def invoke_def raised_def)

text \<open>
  Claim C6. Take a call of \<open>get_project_items\<close> with a custom-field filter (a non-empty
  field name and a non-empty value, and no state filter) to which the client answers a
  page without items. With a cursor the tool returns the plain no-more-items text after
  that single client call. Without a cursor the tool goes on to exactly one call of
  \<open>get_project_fields_details\<close>. So the schema lookup is among the calls of the run if and
  only if no cursor was supplied.
\<close>

theorem schema_lookup_only_on_first_page:
  assumes "\<not> truthy state" and "nonempty fname = Some n" and "nonempty fvalue = Some v"
    and "client_get_project_items cl owner pn limit state fname fvalue cursor w = (Inr page, w1)"
    and "page_items page = []"
  shows "(truthy cursor \<longrightarrow>
            get_project_items ops cl owner pn limit state fname fvalue cursor (tr, w)
              = (Inr (''No more items found in project #'' @ str_int pn @ '' for '' @ owner
                      @ filter_desc ops state fname fvalue),
                 (tr @ [(GetProjectItems owner pn limit state fname fvalue cursor, None)], w1)))
       \<and> (\<not> truthy cursor \<longrightarrow>
            fst (snd (get_project_items ops cl owner pn limit state fname fvalue cursor (tr, w)))
              = tr @ [(GetProjectItems owner pn limit state fname fvalue cursor, None),
                      (GetProjectFieldsDetails owner pn,
                       raised (fst (client_get_project_fields_details cl owner pn w1)))])
       \<and> ((\<exists>r. (GetProjectFieldsDetails owner pn, r)
                  \<in> set (drop (length tr)
                       (fst (snd (get_project_items ops cl owner pn limit state fname fvalue cursor (tr, w))))))
            \<longleftrightarrow> \<not> truthy cursor)"
proof (cases "truthy cursor")
  case True
  have run: "get_project_items ops cl owner pn limit state fname fvalue cursor (tr, w)
      = (Inr (''No more items found in project #'' @ str_int pn @ '' for '' @ owner
              @ filter_desc ops state fname fvalue),
         (tr @ [(GetProjectItems owner pn limit state fname fvalue cursor, None)], w1))"
    using assms True by (intro zero_items_cursor_run) simp_all
  show ?thesis
    using True by (simp add: run)
next
  case False
  have run: "get_project_items ops cl owner pn limit state fname fvalue cursor (tr, w)
      = debug_lookup ops cl owner pn limit (filter_desc ops state fname fvalue) n v
          (tr @ [(GetProjectItems owner pn limit state fname fvalue cursor, None)], w1)"
    using assms False by (intro zero_items_run) simp_all
  show ?thesis
    using False by (simp add: run debug_lookup_trace)
qed

theorem schema_lookup_only_on_first_page_witness:
  "get_project_items ascii_ops (fixed_client healthy) ''octo'' 1 50 None (Some ''Status'') (Some ''Blocked'')
       (Some ''Y3Vyc29y'') ([], 0)
     = (Inr ''No more items found in project #1 for octo (Filter: Status = 'Blocked')'',
        ([(GetProjectItems ''octo'' 1 50 None (Some ''Status'') (Some ''Blocked'') (Some ''Y3Vyc29y''), None)], 1))
   \<and> fst (snd (get_project_items ascii_ops (fixed_client healthy) ''octo'' 1 50 None (Some ''Status'') (Some ''Blocked'')
       None ([], 0)))
     = [(GetProjectItems ''octo'' 1 50 None (Some ''Status'') (Some ''Blocked'') None, None),
        (GetProjectFieldsDetails ''octo'' 1, None)]"
proof -
  let ?page = "\<lparr>page_items = [], page_has_next = False, page_end_cursor = None\<rparr>"
  have a: "\<not> truthy None" and b: "nonempty (Some ''Status'') = Some ''Status''"
    and c: "nonempty (Some ''Blocked'') = Some ''Blocked''"
    by (simp_all add: truthy_def nonempty_def)
  have d: "client_get_project_items (fixed_client healthy) ''octo'' 1 50 None (Some ''Status'')
             (Some ''Blocked'') cursor 0 = (Inr ?page, 1)" for cursor
    by (simp add: fixed_client_def healthy_def)
  have e: "page_items ?page = []" by simp
  have t: "truthy (Some ''Y3Vyc29y'')" by (simp add: truthy_def)
  have f: "raised (fst (client_get_project_fields_details (fixed_client healthy) ''octo'' 1 k)) = None" for k
    by (simp add: fixed_client_def healthy_def raised_def)
  have g: "filter_desc ascii_ops None (Some ''Status'') (Some ''Blocked'') = '' (Filter: Status = 'Blocked')''"
    by (simp add: filter_desc_def nonempty_def)
  have h: "str_int 1 = ''1''" by (simp add: text_eval)
  from schema_lookup_only_on_first_page
         [OF a b c d e, where cursor = "Some ''Y3Vyc29y''" and tr = "[]" and ops = ascii_ops] t
  have first: "get_project_items ascii_ops (fixed_client healthy) ''octo'' 1 50 None (Some ''Status'') (Some ''Blocked'')
       (Some ''Y3Vyc29y'') ([], 0)
     = (Inr ''No more items found in project #1 for octo (Filter: Status = 'Blocked')'',
        ([(GetProjectItems ''octo'' 1 50 None (Some ''Status'') (Some ''Blocked'') (Some ''Y3Vyc29y''), None)], 1))"
    by (simp add: g h)
  from schema_lookup_only_on_first_page [OF a b c d e, where cursor = None and tr = "[]" and ops = ascii_ops] a
  have second: "fst (snd (get_project_items ascii_ops (fixed_client healthy) ''octo'' 1 50 None (Some ''Status'')
       (Some ''Blocked'') None ([], 0)))
     = [(GetProjectItems ''octo'' 1 50 None (Some ''Status'') (Some ''Blocked'') None, None),
        (GetProjectFieldsDetails ''octo'' 1, None)]"
    by (simp add: f)
  show ?thesis
    by (intro conjI first second)
qed



subsection \<open>Type inference of \<open>update_project_item_field\<close>\<close>

lemma int_of_float_integral:
  assumes "is_integer f"
  shows "\<exists>i. int_of_float f = Inr i \<and> f = Finite (of_int i)"
proof (cases f)
  case (Finite q)
  with assms have q: "of_int \<lfloor>q\<rfloor> = q" by simp
  then obtain k :: int where k: "q = of_int k" by metis
  have "int_of_float (Finite (of_int k)) = Inr k" by simp
  with Finite k show ?thesis by auto
qed (use assms in simp_all)

lemma parsed_value_string:
  "py_float field_value = None \<Longrightarrow> parsed_value py_float field_value = Inr (VStr field_value)"
  by (simp add: parsed_value_def)

lemma parsed_value_int:
  "py_float field_value = Some f \<Longrightarrow> int_of_float f = Inr i \<Longrightarrow> is_integer f \<Longrightarrow>
   parsed_value py_float field_value = Inr (VInt i)"
  by (simp add: parsed_value_def)

lemma parsed_value_float:
  "py_float field_value = Some f \<Longrightarrow> \<not> is_integer f \<Longrightarrow>
   parsed_value py_float field_value = Inr (VFloat f)"
  by (simp add: parsed_value_def)

lemma update_forwards_parsed_value:
  "parsed_value py_float field_value = Inr pv \<Longrightarrow>
   fst (snd (update_project_item_field py_float cl owner pn item_id field_id field_value (tr, w)))
     = tr @ [(UpdateProjectItemField owner pn item_id field_id pv,
              raised (fst (client_update_project_item_field cl owner pn item_id field_id pv w)))]"
  by (simp add: update_project_item_field_def invoke_def split: prod.splits sum.splits error.splits)

text \<open>
  Claim C8. Every call of \<open>update_project_item_field\<close> makes exactly one client call,
  and the value it forwards is decided by \<^verbatim>\<open>float(field_value)\<close>: when the text does
  not parse, the text itself is forwarded; when it parses to a float of integral value,
  the integer of that value is forwarded; when it parses to any other float, that float
  is forwarded.
\<close>

theorem update_forwards_coerced_value:
  "(py_float field_value = None \<longrightarrow>
      fst (snd (update_project_item_field py_float cl owner pn item_id field_id field_value (tr, w)))
        = tr @ [(UpdateProjectItemField owner pn item_id field_id (VStr field_value),
                 raised (fst (client_update_project_item_field cl owner pn item_id field_id
                                (VStr field_value) w)))])
   \<and> (py_float field_value = Some f \<and> is_integer f \<longrightarrow>
      (\<exists>i. f = Finite (of_int i) \<and>
        fst (snd (update_project_item_field py_float cl owner pn item_id field_id field_value (tr, w)))
          = tr @ [(UpdateProjectItemField owner pn item_id field_id (VInt i),
                   raised (fst (client_update_project_item_field cl owner pn item_id field_id
                                  (VInt i) w)))]))
   \<and> (py_float field_value = Some f \<and> \<not> is_integer f \<longrightarrow>
      fst (snd (update_project_item_field py_float cl owner pn item_id field_id field_value (tr, w)))
        = tr @ [(UpdateProjectItemField owner pn item_id field_id (VFloat f),
                 raised (fst (client_update_project_item_field cl owner pn item_id field_id
                                (VFloat f) w)))])"
proof (intro conjI impI)
  assume "py_float field_value = None"
  then have "parsed_value py_float field_value = Inr (VStr field_value)"
    by (rule parsed_value_string)
  then show "fst (snd (update_project_item_field py_float cl owner pn item_id field_id field_value (tr, w)))
        = tr @ [(UpdateProjectItemField owner pn item_id field_id (VStr field_value),
                 raised (fst (client_update_project_item_field cl owner pn item_id field_id
                                (VStr field_value) w)))]"
    by (rule update_forwards_parsed_value)
next
  assume h: "py_float field_value = Some f \<and> is_integer f"
  then obtain i where i: "int_of_float f = Inr i" "f = Finite (of_int i)"
    using int_of_float_integral by blast
  from h have "py_float field_value = Some f" and "is_integer f"
    by simp_all
  then have "parsed_value py_float field_value = Inr (VInt i)"
    using i(1) by (simp add: parsed_value_int)
  then have "fst (snd (update_project_item_field py_float cl owner pn item_id field_id field_value (tr, w)))
          = tr @ [(UpdateProjectItemField owner pn item_id field_id (VInt i),
                   raised (fst (client_update_project_item_field cl owner pn item_id field_id
                                  (VInt i) w)))]"
    by (rule update_forwards_parsed_value)
  with i(2) show "\<exists>i. f = Finite (of_int i) \<and>
        fst (snd (update_project_item_field py_float cl owner pn item_id field_id field_value (tr, w)))
          = tr @ [(UpdateProjectItemField owner pn item_id field_id (VInt i),
                   raised (fst (client_update_project_item_field cl owner pn item_id field_id
                                  (VInt i) w)))]"
    by blast
next
  assume h: "py_float field_value = Some f \<and> \<not> is_integer f"
  then have "parsed_value py_float field_value = Inr (VFloat f)"
    by (simp add: parsed_value_float)
  then show "fst (snd (update_project_item_field py_float cl owner pn item_id field_id field_value (tr, w)))
        = tr @ [(UpdateProjectItemField owner pn item_id field_id (VFloat f),
                 raised (fst (client_update_project_item_field cl owner pn item_id field_id
                                (VFloat f) w)))]"
    by (rule update_forwards_parsed_value)
qed

theorem update_forwards_coerced_value_witness:
  "fst (snd (update_project_item_field sample_float (fixed_client healthy) ''octo'' 1 ''PVTI_7'' ''PVTF_1''
               ''2025-01-01'' ([], 0)))
     = [(UpdateProjectItemField ''octo'' 1 ''PVTI_7'' ''PVTF_1'' (VStr ''2025-01-01''), None)]
   \<and> fst (snd (update_project_item_field sample_float (fixed_client healthy) ''octo'' 1 ''PVTI_7'' ''PVTF_1''
               ''3.0'' ([], 0)))
     = [(UpdateProjectItemField ''octo'' 1 ''PVTI_7'' ''PVTF_1'' (VInt 3), None)]
   \<and> fst (snd (update_project_item_field sample_float (fixed_client healthy) ''octo'' 1 ''PVTI_7'' ''PVTF_1''
               ''2.5'' ([], 0)))
     = [(UpdateProjectItemField ''octo'' 1 ''PVTI_7'' ''PVTF_1'' (VFloat (Finite (5 / 2))), None)]"
proof -
  have ok: "raised (fst (client_update_project_item_field (fixed_client healthy) ''octo'' 1 ''PVTI_7''
                           ''PVTF_1'' pv 0)) = None" for pv
    by (simp add: fixed_client_def healthy_def raised_def)
  have a: "sample_float ''2025-01-01'' = None"
    by (simp add: sample_float_def)
  have b: "sample_float ''3.0'' = Some (Finite 3) \<and> is_integer (Finite 3)"
    by (simp add: sample_float_def)
  have c: "sample_float ''2.5'' = Some (Finite (5 / 2)) \<and> \<not> is_integer (Finite (5 / 2))"
    by (simp add: sample_float_def) code_simp
  note inst = update_forwards_coerced_value
      [where py_float = sample_float and cl = "fixed_client healthy" and owner = "''octo''" and pn = 1
         and item_id = "''PVTI_7''" and field_id = "''PVTF_1''" and tr = "[]" and w = 0]
  from inst [where field_value = "''2025-01-01''", THEN conjunct1, rule_format, OF a]
  have first: "fst (snd (update_project_item_field sample_float (fixed_client healthy) ''octo'' 1 ''PVTI_7''
               ''PVTF_1'' ''2025-01-01'' ([], 0)))
     = [(UpdateProjectItemField ''octo'' 1 ''PVTI_7'' ''PVTF_1'' (VStr ''2025-01-01''), None)]"
    by (simp add: ok)
  from inst [where field_value = "''3.0''" and f = "Finite 3", THEN conjunct2, THEN conjunct1, rule_format, OF b]
  obtain i where i3: "of_int i = (3::rat)"
    and run: "fst (snd (update_project_item_field sample_float (fixed_client healthy) ''octo'' 1 ''PVTI_7''
               ''PVTF_1'' ''3.0'' ([], 0)))
          = [(UpdateProjectItemField ''octo'' 1 ''PVTI_7'' ''PVTF_1'' (VInt i), None)]"
    by (auto simp add: ok)
  from i3 have "i = 3" by simp
  with run have second: "fst (snd (update_project_item_field sample_float (fixed_client healthy) ''octo'' 1
               ''PVTI_7'' ''PVTF_1'' ''3.0'' ([], 0)))
          = [(UpdateProjectItemField ''octo'' 1 ''PVTI_7'' ''PVTF_1'' (VInt 3), None)]"
    by simp
  from inst [where field_value = "''2.5''" and f = "Finite (5 / 2)", THEN conjunct2, THEN conjunct2, rule_format, OF c]
  have third: "fst (snd (update_project_item_field sample_float (fixed_client healthy) ''octo'' 1 ''PVTI_7''
               ''PVTF_1'' ''2.5'' ([], 0)))
     = [(UpdateProjectItemField ''octo'' 1 ''PVTI_7'' ''PVTF_1'' (VFloat (Finite (5 / 2))), None)]"
    by (simp add: ok)
  show ?thesis
    by (intro conjI first second third)
qed

subsection \<open>Client errors are caught\<close>

lemma sublist_ConsI: "sublist m ys \<Longrightarrow> sublist m (y # ys)"
  by (simp add: sublist_Cons_right)

lemma sublist_self: "sublist m m"
  by (rule sublist_order.order.refl)

lemmas msg_intros = sublist_ConsI sublist_in_right sublist_self

lemmas caught_defs =
  caught_def nested_text_def nested_call_def catches_value_error_def invoke_def raised_def key_error_def

lemma list_projects_caught:
  "caught ops m (ListProjects owner) (fst (list_projects cl owner (tr, w)))
     (drop (length tr) (fst (snd (list_projects cl owner (tr, w)))))"
  by (auto simp add: caught_defs list_projects_def
        split: prod.splits sum.splits error.splits intro!: msg_intros)

lemma get_project_fields_caught:
  "caught ops m (GetProjectFields owner pn) (fst (get_project_fields cl owner pn (tr, w)))
     (drop (length tr) (fst (snd (get_project_fields cl owner pn (tr, w)))))"
  by (auto simp add: caught_defs get_project_fields_def
        split: prod.splits sum.splits error.splits intro!: msg_intros)

lemma create_issue_caught:
  "caught ops m (CreateIssueTool owner repo title body assignees)
     (fst (create_issue cl owner repo title body assignees (tr, w)))
     (drop (length tr) (fst (snd (create_issue cl owner repo title body assignees (tr, w)))))"
  by (auto simp add: caught_defs create_issue_def
        split: prod.splits sum.splits error.splits intro!: msg_intros)

lemma add_issue_to_project_caught:
  "caught ops m (AddIssueToProjectTool owner pn io ir n)
     (fst (add_issue_to_project cl owner pn io ir n (tr, w)))
     (drop (length tr) (fst (snd (add_issue_to_project cl owner pn io ir n (tr, w)))))"
  by (auto simp add: caught_defs add_issue_to_project_def
        split: prod.splits sum.splits error.splits intro!: msg_intros)

lemma set_project_item_dates_caught:
  "caught ops m (SetProjectItemDatesTool owner pn item_id sd ed sname ename)
     (fst (set_project_item_dates cl owner pn item_id sd ed sname ename (tr, w)))
     (drop (length tr) (fst (snd (set_project_item_dates cl owner pn item_id sd ed sname ename (tr, w)))))"
  by (auto simp add: caught_defs set_project_item_dates_def
        split: prod.splits sum.splits error.splits intro!: msg_intros)

lemma create_draft_issue_caught:
  "caught ops m (CreateDraftIssue owner pn title body assignees)
     (fst (create_draft_issue cl owner pn title body assignees (tr, w)))
     (drop (length tr) (fst (snd (create_draft_issue cl owner pn title body assignees (tr, w)))))"
  by (auto simp add: caught_defs create_draft_issue_def
        split: prod.splits sum.splits error.splits intro!: msg_intros)

lemma delete_project_item_caught:
  "caught ops m (DeleteProjectItemTool owner pn item_id)
     (fst (delete_project_item cl owner pn item_id (tr, w)))
     (drop (length tr) (fst (snd (delete_project_item cl owner pn item_id (tr, w)))))"
  by (auto simp add: caught_defs delete_project_item_def
        split: prod.splits sum.splits error.splits intro!: msg_intros)

lemma added_message_keeps: "sublist m msg \<Longrightarrow> sublist m (added_message io ir n pn new_id msg)"
  unfolding added_message_def by (intro sublist_in_right)

lemma created_message_not_error:
  "\<not> prefix ''Error:'' (created_message owner repo assignees iss new_id msg)"
  by (simp add: created_message_def)

lemma created_message_keeps:
  assumes "sublist m msg"
  shows "sublist m (created_message owner repo assignees iss new_id msg)"
proof -
  have "sublist msg (created_message owner repo assignees iss new_id msg)"
    unfolding created_message_def sublist_def
    by (rule exI [of _ "''Issue created and added to project successfully!'' @ nl @ nl
             @ ''Repository: '' @ owner @ ''/'' @ repo @ nl
             @ ''Issue Number: #'' @ fmt_int_opt (dict_get (issue_number iss)) @ nl
             @ ''Title: '' @ fmt_str_opt (dict_get (issue_title iss)) @ nl
             @ ''URL: '' @ fmt_str_opt (dict_get (issue_url iss)) @ nl
             @ ''Project Item ID: '' @ fmt_str_opt new_id"],
        rule exI [of _ "nl @ assignees_info assignees iss"]) simp
  with assms show ?thesis
    by (rule sublist_order.order.trans)
qed

lemma no_items_message_not_error: "\<not> prefix ''Error:'' (no_items_message owner pn fdesc)"
  by (simp add: no_items_message_def)

lemma update_project_item_field_caught:
  "caught ops m (UpdateProjectItemFieldTool owner pn item_id field_id field_value)
     (fst (update_project_item_field pf cl owner pn item_id field_id field_value (tr, w)))
     (drop (length tr)
        (fst (snd (update_project_item_field pf cl owner pn item_id field_id field_value (tr, w)))))"
  by (auto simp add: caught_defs update_project_item_field_def
        split: prod.splits sum.splits error.splits intro!: msg_intros)

lemma add_issue_to_project_with_dates_caught:
  "caught ops m (AddIssueToProjectWithDates owner pn io ir n sd ed sname ename)
     (fst (add_issue_to_project_with_dates cl owner pn io ir n sd ed sname ename (tr, w)))
     (drop (length tr)
        (fst (snd (add_issue_to_project_with_dates cl owner pn io ir n sd ed sname ename (tr, w)))))"
  by (auto simp add: caught_defs add_issue_to_project_with_dates_def added_message_not_error Let_def
        split: prod.splits sum.splits error.splits option.splits
        intro!: added_message_keeps msg_intros)

lemma create_issue_and_add_to_project_caught:
  "caught ops m (CreateIssueAndAddToProject owner repo pn title body assignees sd ed sname ename)
     (fst (create_issue_and_add_to_project cl owner repo pn title body assignees sd ed sname ename (tr, w)))
     (drop (length tr)
        (fst (snd (create_issue_and_add_to_project cl owner repo pn title body assignees sd ed sname ename
                     (tr, w)))))"
  by (auto simp add: caught_defs create_issue_and_add_to_project_def created_message_not_error Let_def
        split: prod.splits sum.splits error.splits option.splits
        intro!: created_message_keeps msg_intros)

lemma debug_lookup_swallows:
  assumes "client_get_project_fields_details cl owner pn w1 = (Inl err, w2)"
    and "is_exception err"
  shows "fst (debug_lookup ops cl owner pn limit fdesc n v (tr, w1)) = Inr (no_items_message owner pn fdesc)"
  using assms by (simp add: debug_lookup_def invoke_def Let_def)

lemma debug_lookup_never_raises_client_error:
  "fst (debug_lookup ops cl owner pn limit fdesc n v s) \<noteq> Inl (GitHubClientError m)
   \<and> fst (debug_lookup ops cl owner pn limit fdesc n v s) \<noteq> Inl (ValueError m)"
  by (auto simp add: debug_lookup_def invoke_def Let_def is_exception_def keys_of_def
        split: prod.splits sum.splits error.splits option.splits entry.splits if_splits)

lemma get_project_items_caught:
  "caught ops m (GetProjectItemsTool owner pn limit state fname fvalue cursor)
     (fst (get_project_items ops cl owner pn limit state fname fvalue cursor (tr, w)))
     (drop (length tr)
        (fst (snd (get_project_items ops cl owner pn limit state fname fvalue cursor (tr, w)))))"
proof (cases "truthy state \<and> truthy fname")
  case True
  then show ?thesis
    by (simp add: caught_defs get_project_items_def)
next
  case False
  obtain r w1 where items: "client_get_project_items cl owner pn limit state fname fvalue cursor w = (r, w1)"
    by (cases "client_get_project_items cl owner pn limit state fname fvalue cursor w")
  show ?thesis
  proof (cases r)
    case (Inl e)
    with False items show ?thesis
      by (cases e)
        (auto simp add: caught_defs get_project_items_def intro!: msg_intros)
  next
    case (Inr page)
    show ?thesis
    proof (cases "page_items page = [] \<and> \<not> truthy cursor
                   \<and> nonempty fname \<noteq> None \<and> nonempty fvalue \<noteq> None")
      case no_lookup: False
      with False items Inr show ?thesis
        by (auto simp add: caught_defs get_project_items_def Let_def split: option.splits)
    next
      case lookup: True
      then obtain n v where nv: "nonempty fname = Some n" "nonempty fvalue = Some v"
        by auto
      let ?s1 = "(tr @ [(GetProjectItems owner pn limit state fname fvalue cursor, None)], w1)"
      let ?fdesc = "filter_desc ops state fname fvalue"
      from False have unguarded: "(truthy state \<and> truthy fname) = False"
        by simp
      have run: "get_project_items ops cl owner pn limit state fname fvalue cursor (tr, w)
          = debug_lookup ops cl owner pn limit ?fdesc n v ?s1"
        using items Inr lookup nv
        by (simp add: get_project_items_def invoke_def raised_def unguarded)
      have trace: "drop (length tr) (fst (snd (debug_lookup ops cl owner pn limit ?fdesc n v ?s1)))
          = [(GetProjectItems owner pn limit state fname fvalue cursor, None),
             (GetProjectFieldsDetails owner pn,
              raised (fst (client_get_project_fields_details cl owner pn w1)))]"
        by (simp add: debug_lookup_trace)
      have swallowed: "fst (debug_lookup ops cl owner pn limit ?fdesc n v ?s1)
                         = Inr (no_items_message owner pn ?fdesc)"
        if "Some err = raised (fst (client_get_project_fields_details cl owner pn w1))"
          and "err = GitHubClientError m \<or> err = ValueError m" for err
      proof -
        obtain r2 w2 where lookup: "client_get_project_fields_details cl owner pn w1 = (r2, w2)"
          by (cases "client_get_project_fields_details cl owner pn w1")
        with that(1) have "r2 = Inl err"
          by (auto simp add: raised_def split: sum.splits)
        with lookup have "client_get_project_fields_details cl owner pn w1 = (Inl err, w2)"
          by simp
        moreover from that(2) have "is_exception err"
          by (auto simp add: is_exception_def)
        ultimately show ?thesis
          by (rule debug_lookup_swallows)
      qed
      show ?thesis
        unfolding run caught_def trace
        using debug_lookup_never_raises_client_error [of ops cl owner pn limit ?fdesc n v ?s1 m] swallowed
        by (auto simp add: nested_call_def nested_text_def no_items_message_not_error)
    qed
  qed
qed

lemma run_tool_caught:
  "caught ops m tc (fst (run_tool pf ops cl tc (tr, w)))
     (drop (length tr) (fst (snd (run_tool pf ops cl tc (tr, w)))))"
  by (cases tc)
    (simp_all add: list_projects_caught get_project_fields_caught get_project_items_caught
       create_issue_caught add_issue_to_project_caught set_project_item_dates_caught
       add_issue_to_project_with_dates_caught create_issue_and_add_to_project_caught
       update_project_item_field_caught create_draft_issue_caught delete_project_item_caught)

text \<open>
  Claim C9, as amended. Whatever the tool, its arguments and the client, no
  \<open>GitHubClientError\<close> leaves a tool as an exception, and no \<open>ValueError\<close> leaves
  \<open>get_project_items\<close> or \<open>set_project_item_dates\<close>. When a client call of the run raised
  a \<open>GitHubClientError\<close> (or, in these two tools, a \<open>ValueError\<close>) with message \<open>m\<close> and the
  call is not one made inside a nested handler, the tool returns a text that begins
  with \<open>Error:\<close> and holds \<open>m\<close>. When the call is a nested one, the tool returns a text
  that does not begin with \<open>Error:\<close>: for the date step of
  \<open>add_issue_to_project_with_dates\<close> and of \<open>create_issue_and_add_to_project\<close> it is the text
  of the successful steps with the warning that setting the dates failed and the
  message \<open>m\<close>; for the schema lookup of \<open>get_project_items\<close> it is the plain no-items
  text, which need not hold \<open>m\<close>.
\<close>

theorem client_errors_are_caught:
  "fst (run_tool pf ops cl tc (tr, w)) \<noteq> Inl (GitHubClientError m)
   \<and> (catches_value_error tc \<longrightarrow> fst (run_tool pf ops cl tc (tr, w)) \<noteq> Inl (ValueError m))
   \<and> (\<forall>c err. (c, Some err) \<in> set (drop (length tr) (fst (snd (run_tool pf ops cl tc (tr, w)))))
         \<and> (err = GitHubClientError m \<or> err = ValueError m \<and> catches_value_error tc)
         \<and> \<not> nested_call tc c
       \<longrightarrow> (\<exists>t. fst (run_tool pf ops cl tc (tr, w)) = Inr t
              \<and> prefix ''Error:'' t \<and> sublist m t))
   \<and> (\<forall>c err. (c, Some err) \<in> set (drop (length tr) (fst (snd (run_tool pf ops cl tc (tr, w)))))
         \<and> (err = GitHubClientError m \<or> err = ValueError m)
         \<and> nested_call tc c
       \<longrightarrow> (\<exists>t. fst (run_tool pf ops cl tc (tr, w)) = Inr t
              \<and> nested_text ops tc m t
              \<and> \<not> prefix ''Error:'' t
              \<and> ((\<forall>owner pn. c \<noteq> GetProjectFieldsDetails owner pn) \<longrightarrow> sublist m t)))"
  using run_tool_caught [of ops m tc pf cl tr w] unfolding caught_def .

theorem client_errors_are_caught_witness:
  "(\<exists>t. fst (run_tool sample_float ascii_ops
               (fixed_client (healthy\<lparr>on_set_project_item_dates := Inl (ValueError ''Invalid date'')\<rparr>))
               (SetProjectItemDatesTool ''octo'' 1 ''PVTI_7'' (Some ''2025-13-01'') None ''Start Date'' ''End Date'')
               ([], 0)) = Inr t
      \<and> prefix ''Error:'' t \<and> sublist ''Invalid date'' t)
   \<and> (\<exists>t. fst (run_tool sample_float ascii_ops
               (fixed_client (healthy\<lparr>on_set_project_item_dates := Inl (ValueError ''Invalid date'')\<rparr>))
               (AddIssueToProjectWithDates ''octo'' 1 ''octo'' ''app'' 42 (Some ''2025-13-01'') None
                  ''Start Date'' ''End Date'')
               ([], 0)) = Inr t
      \<and> (\<exists>new_id. t = added_message ''octo'' ''app'' 42 1 new_id
                          (nl @ ''Warning: Issue added but failed to set dates: '' @ ''Invalid date''))
      \<and> \<not> prefix ''Error:'' t \<and> sublist ''Invalid date'' t)"
proof -
  let ?cl = "fixed_client (healthy\<lparr>on_set_project_item_dates := Inl (ValueError ''Invalid date'')\<rparr>)"
  let ?call = "SetProjectItemDates ''octo'' 1 ''PVTI_7'' (Some ''2025-13-01'') None ''Start Date'' ''End Date''"
  let ?plain = "SetProjectItemDatesTool ''octo'' 1 ''PVTI_7'' (Some ''2025-13-01'') None ''Start Date'' ''End Date''"
  let ?composed = "AddIssueToProjectWithDates ''octo'' 1 ''octo'' ''app'' 42 (Some ''2025-13-01'') None
                     ''Start Date'' ''End Date''"
  have a: "(?call, Some (ValueError ''Invalid date''))
             \<in> set (drop (length []) (fst (snd (run_tool sample_float ascii_ops ?cl ?plain ([], 0)))))
           \<and> (ValueError ''Invalid date'' = GitHubClientError ''Invalid date''
               \<or> ValueError ''Invalid date'' = ValueError ''Invalid date'' \<and> catches_value_error ?plain)
           \<and> \<not> nested_call ?plain ?call"
    by (simp add: set_project_item_dates_def invoke_def raised_def fixed_client_def healthy_def truthy_def
          catches_value_error_def nested_call_def)
  have b: "(?call, Some (ValueError ''Invalid date''))
             \<in> set (drop (length []) (fst (snd (run_tool sample_float ascii_ops ?cl ?composed ([], 0)))))
           \<and> (ValueError ''Invalid date'' = GitHubClientError ''Invalid date''
               \<or> ValueError ''Invalid date'' = ValueError ''Invalid date'')
           \<and> nested_call ?composed ?call"
    by (simp add: add_issue_to_project_with_dates_def invoke_def raised_def fixed_client_def healthy_def
          truthy_def nonempty_def nested_call_def dict_get_def)
  have c: "\<forall>owner pn. ?call \<noteq> GetProjectFieldsDetails owner pn"
    by simp
  note plain = client_errors_are_caught
      [where pf = sample_float and ops = ascii_ops and cl = "?cl" and tc = "?plain" and tr = "[]" and w = 0
         and m = "''Invalid date''", THEN conjunct2, THEN conjunct2, THEN conjunct1, rule_format, OF a]
  note composed = client_errors_are_caught
      [where pf = sample_float and ops = ascii_ops and cl = "?cl" and tc = "?composed" and tr = "[]" and w = 0
         and m = "''Invalid date''", THEN conjunct2, THEN conjunct2, THEN conjunct2, rule_format, OF b]
  from composed c have composed': "\<exists>t. fst (run_tool sample_float ascii_ops ?cl ?composed ([], 0)) = Inr t
      \<and> (\<exists>new_id. t = added_message ''octo'' ''app'' 42 1 new_id
                          (nl @ ''Warning: Issue added but failed to set dates: '' @ ''Invalid date''))
      \<and> \<not> prefix ''Error:'' t \<and> sublist ''Invalid date'' t"
    unfolding nested_text_def tool_call.case by blast
  show ?thesis
    by (intro conjI plain composed')
qed

text \<open>
  Claim C9 as stated fails on the nested calls. The client raises a
  \<open>GitHubClientError\<close> in the date step of \<open>add_issue_to_project_with_dates\<close>, and the
  tool returns the text of a successful add; the client raises one in the schema
  lookup of \<open>get_project_items\<close>, and the tool returns the no-items text, without the
  message of the error.
\<close>

theorem error_text_for_every_client_error_counterexample:
  "run_tool sample_float ascii_ops
       (fixed_client (healthy\<lparr>on_set_project_item_dates := Inl (GitHubClientError ''Field not found'')\<rparr>))
       (AddIssueToProjectWithDates ''octo'' 1 ''octo'' ''app'' 42 (Some ''2025-01-01'') None
          ''Start Date'' ''End Date'')
       ([], 0)
     = (Inr (''Successfully added issue octo/app#42 to project #1!'' @ nl
             @ ''Item ID: PVTI_7'' @ nl
             @ ''Warning: Issue added but failed to set dates: Field not found''),
        ([(AddIssueToProject ''octo'' 1 ''octo'' ''app'' (Some 42), None),
          (SetProjectItemDates ''octo'' 1 ''PVTI_7'' (Some ''2025-01-01'') None ''Start Date'' ''End Date'',
           Some (GitHubClientError ''Field not found''))], 2))
   \<and> \<not> prefix ''Error:''
         (''Successfully added issue octo/app#42 to project #1!'' @ nl
          @ ''Item ID: PVTI_7'' @ nl
          @ ''Warning: Issue added but failed to set dates: Field not found'')
   \<and> run_tool sample_float ascii_ops
       (fixed_client (healthy\<lparr>on_get_project_fields_details := Inl (GitHubClientError ''rate limited'')\<rparr>))
       (GetProjectItemsTool ''octo'' 1 50 None (Some ''Status'') (Some ''Done'') None)
       ([], 0)
     = (Inr (''No items found in project #1 for octo (Filter: Status = 'Done')'' @ nl @ nl
             @ ''Note: If the project has many items, try increasing the limit parameter to search more thoroughly.''),
        ([(GetProjectItems ''octo'' 1 50 None (Some ''Status'') (Some ''Done'') None, None),
          (GetProjectFieldsDetails ''octo'' 1, Some (GitHubClientError ''rate limited''))], 2))
   \<and> \<not> prefix ''Error:''
         (''No items found in project #1 for octo (Filter: Status = 'Done')'' @ nl @ nl
          @ ''Note: If the project has many items, try increasing the limit parameter to search more thoroughly.'')
   \<and> \<not> sublist ''rate limited''
         (''No items found in project #1 for octo (Filter: Status = 'Done')'' @ nl @ nl
          @ ''Note: If the project has many items, try increasing the limit parameter to search more thoroughly.'')"
proof (intro conjI)
  show "run_tool sample_float ascii_ops
       (fixed_client (healthy\<lparr>on_set_project_item_dates := Inl (GitHubClientError ''Field not found'')\<rparr>))
       (AddIssueToProjectWithDates ''octo'' 1 ''octo'' ''app'' 42 (Some ''2025-01-01'') None
          ''Start Date'' ''End Date'')
       ([], 0)
     = (Inr (''Successfully added issue octo/app#42 to project #1!'' @ nl
             @ ''Item ID: PVTI_7'' @ nl
             @ ''Warning: Issue added but failed to set dates: Field not found''),
        ([(AddIssueToProject ''octo'' 1 ''octo'' ''app'' (Some 42), None),
          (SetProjectItemDates ''octo'' 1 ''PVTI_7'' (Some ''2025-01-01'') None ''Start Date'' ''End Date'',
           Some (GitHubClientError ''Field not found''))], 2))"
    by (simp add: add_issue_to_project_with_dates_def invoke_def raised_def fixed_client_def healthy_def
          truthy_def nonempty_def added_message_def text_eval)
  show "\<not> prefix ''Error:''
         (''Successfully added issue octo/app#42 to project #1!'' @ nl
          @ ''Item ID: PVTI_7'' @ nl
          @ ''Warning: Issue added but failed to set dates: Field not found'')"
    by simp
  show "run_tool sample_float ascii_ops
       (fixed_client (healthy\<lparr>on_get_project_fields_details := Inl (GitHubClientError ''rate limited'')\<rparr>))
       (GetProjectItemsTool ''octo'' 1 50 None (Some ''Status'') (Some ''Done'') None)
       ([], 0)
     = (Inr (''No items found in project #1 for octo (Filter: Status = 'Done')'' @ nl @ nl
             @ ''Note: If the project has many items, try increasing the limit parameter to search more thoroughly.''),
        ([(GetProjectItems ''octo'' 1 50 None (Some ''Status'') (Some ''Done'') None, None),
          (GetProjectFieldsDetails ''octo'' 1, Some (GitHubClientError ''rate limited''))], 2))"
    by (simp add: get_project_items_def debug_lookup_def invoke_def raised_def fixed_client_def healthy_def
          truthy_def nonempty_def filter_desc_def no_items_message_def is_exception_def text_eval)
  show "\<not> prefix ''Error:''
         (''No items found in project #1 for octo (Filter: Status = 'Done')'' @ nl @ nl
          @ ''Note: If the project has many items, try increasing the limit parameter to search more thoroughly.'')"
    by simp
  show "\<not> sublist ''rate limited''
         (''No items found in project #1 for octo (Filter: Status = 'Done')'' @ nl @ nl
          @ ''Note: If the project has many items, try increasing the limit parameter to search more thoroughly.'')"
    unfolding nl_def by code_simp
qed

subsection \<open>Where the code departs from the specification\<close>

text \<open>
  Claim C2. The code at a failing input. On a project whose only field is \<open>Notes\<close>, the
  filter \<open>Status = Done\<close> names a field that does not exist: the loop over the field
  mapping finds nothing, \<^verbatim>\<open>if field_info:\<close> has no other branch, and the tool falls
  through to its last return. The text it returns does not hold the words not found,
  and it is the very text returned on a project where \<open>Status\<close> is a plain text field,
  which is a real empty result. The claim asks for a report that the field was not
  found, distinguishable from that text.
\<close>

theorem unknown_field_is_not_reported:
  "get_project_items ascii_ops
       (fixed_client (healthy\<lparr>on_get_project_fields_details := Inr [(''Notes'', notes_field)]\<rparr>))
       ''octo'' 1 50 None (Some ''Status'') (Some ''Done'') None ([], 0)
     = (Inr (''No items found in project #1 for octo (Filter: Status = 'Done')'' @ nl @ nl
             @ ''Note: If the project has many items, try increasing the limit parameter to search more thoroughly.''),
        ([(GetProjectItems ''octo'' 1 50 None (Some ''Status'') (Some ''Done'') None, None),
          (GetProjectFieldsDetails ''octo'' 1, None)], 2))
   \<and> fst (get_project_items ascii_ops
          (fixed_client (healthy\<lparr>on_get_project_fields_details := Inr [(''Status'', notes_field)]\<rparr>))
          ''octo'' 1 50 None (Some ''Status'') (Some ''Done'') None ([], 0))
     = Inr (''No items found in project #1 for octo (Filter: Status = 'Done')'' @ nl @ nl
            @ ''Note: If the project has many items, try increasing the limit parameter to search more thoroughly.'')
   \<and> \<not> sublist ''not found''
         (''No items found in project #1 for octo (Filter: Status = 'Done')'' @ nl @ nl
          @ ''Note: If the project has many items, try increasing the limit parameter to search more thoroughly.'')"
proof (intro conjI)
  show "get_project_items ascii_ops
       (fixed_client (healthy\<lparr>on_get_project_fields_details := Inr [(''Notes'', notes_field)]\<rparr>))
       ''octo'' 1 50 None (Some ''Status'') (Some ''Done'') None ([], 0)
     = (Inr (''No items found in project #1 for octo (Filter: Status = 'Done')'' @ nl @ nl
             @ ''Note: If the project has many items, try increasing the limit parameter to search more thoroughly.''),
        ([(GetProjectItems ''octo'' 1 50 None (Some ''Status'') (Some ''Done'') None, None),
          (GetProjectFieldsDetails ''octo'' 1, None)], 2))"
    by (simp add: get_project_items_def debug_lookup_def invoke_def raised_def fixed_client_def healthy_def
          truthy_def nonempty_def filter_desc_def no_items_message_def notes_field_def text_eval)
  show "fst (get_project_items ascii_ops
          (fixed_client (healthy\<lparr>on_get_project_fields_details := Inr [(''Status'', notes_field)]\<rparr>))
          ''octo'' 1 50 None (Some ''Status'') (Some ''Done'') None ([], 0))
     = Inr (''No items found in project #1 for octo (Filter: Status = 'Done')'' @ nl @ nl
            @ ''Note: If the project has many items, try increasing the limit parameter to search more thoroughly.'')"
    by (simp add: get_project_items_def debug_lookup_def invoke_def raised_def fixed_client_def healthy_def
          truthy_def nonempty_def filter_desc_def no_items_message_def notes_field_def text_eval)
  show "\<not> sublist ''not found''
         (''No items found in project #1 for octo (Filter: Status = 'Done')'' @ nl @ nl
          @ ''Note: If the project has many items, try increasing the limit parameter to search more thoroughly.'')"
    unfolding nl_def by code_simp
qed

text \<open>
  Claim C1. The code at a failing input. The service creates issue 42 and then refuses
  to add it to project 99. Creation and addition share one \<^verbatim>\<open>try\<close> block, so the
  tool returns the overall error text after these two calls: it holds neither the
  number 42 nor the URL of the issue, and no note that the issue exists unlinked. The
  claim asks for the number and the URL of the created issue with a note that linking
  failed, which is what the date step of the same tool does for the steps completed
  before it.
\<close>

theorem failed_add_loses_created_issue:
  "create_issue_and_add_to_project
       (fixed_client (healthy\<lparr>on_add_issue_to_project := Inl (GitHubClientError ''Project not found'')\<rparr>))
       ''octo'' ''app'' 99 ''Fix login'' ''Steps'' None None None ''Start Date'' ''End Date'' ([], 0)
     = (Inr ''Error: Could not create/add issue or set dates. Details: Project not found'',
        ([(CreateIssue ''octo'' ''app'' ''Fix login'' ''Steps'' None, None),
          (AddIssueToProject ''octo'' 99 ''octo'' ''app'' (Some 42), Some (GitHubClientError ''Project not found''))],
         2))
   \<and> issue_number issue42 = Value 42
   \<and> issue_url issue42 = Value ''https://github.com/octo/app/issues/42''
   \<and> \<not> sublist ''42'' ''Error: Could not create/add issue or set dates. Details: Project not found''
   \<and> \<not> sublist ''https://github.com/octo/app/issues/42''
         ''Error: Could not create/add issue or set dates. Details: Project not found''"
proof (intro conjI)
  show "create_issue_and_add_to_project
       (fixed_client (healthy\<lparr>on_add_issue_to_project := Inl (GitHubClientError ''Project not found'')\<rparr>))
       ''octo'' ''app'' 99 ''Fix login'' ''Steps'' None None None ''Start Date'' ''End Date'' ([], 0)
     = (Inr ''Error: Could not create/add issue or set dates. Details: Project not found'',
        ([(CreateIssue ''octo'' ''app'' ''Fix login'' ''Steps'' None, None),
          (AddIssueToProject ''octo'' 99 ''octo'' ''app'' (Some 42), Some (GitHubClientError ''Project not found''))],
         2))"
    by (simp add: create_issue_and_add_to_project_def invoke_def raised_def fixed_client_def healthy_def
          issue42_def dict_get_def)
  show "issue_number issue42 = Value 42"
    by (simp add: issue42_def)
  show "issue_url issue42 = Value ''https://github.com/octo/app/issues/42''"
    by (simp add: issue42_def)
  show "\<not> sublist ''42'' ''Error: Could not create/add issue or set dates. Details: Project not found''"
    by code_simp
  show "\<not> sublist ''https://github.com/octo/app/issues/42''
         ''Error: Could not create/add issue or set dates. Details: Project not found''"
    by code_simp
qed


end
